theory Spec2Isabelle
  imports Complex_Main "HOL-Library.Sublist" "HOL-Library.AList"
begin

section \<open>Python values\<close>

text \<open>
  A Python \<open>str\<close> is a sequence of Unicode code points, so it is modelled as a list of
  natural numbers: \<open>len\<close> is \<open>length\<close>, and the rupee sign of
  \<open>services/google_sheets.py\<close> is the single element \<open>8377\<close> (U+20B9).
  \<open>ascii\<close> writes an ASCII literal of the source.
\<close>

type_synonym ustring = "nat list"

definition ascii :: "string \<Rightarrow> ustring" where
  "ascii s = map of_char s"

text \<open>
  The exceptions the modelled code can meet. \<open>External\<close> is a failure of a collaborator
  (network, language model, JSON decoder, spreadsheet API), carrying its message.
\<close>

datatype error =
    AttributeError
  | TypeError
  | ValueError
  | KeyError
  | ZeroDivisionError
  | OverflowError
  | IntegrityError
  | StatementError
  | External ustring

text \<open>
  What Python's Unicode database decides for the characters beyond ASCII is not part of the
  repository: it is a parameter. For ASCII the functions below are written out.
  \<open>uc_float\<close> is \<open>float()\<close> on a string of digit characters and dots that holds a
  non-ASCII digit.
\<close>

record unicode =
  uc_isdigit :: "nat \<Rightarrow> bool"
  uc_isupper :: "nat \<Rightarrow> bool"
  uc_lower :: "nat \<Rightarrow> ustring"
  uc_upper :: "nat \<Rightarrow> ustring"
  uc_float :: "ustring \<Rightarrow> rat option"

text \<open>Tables under which no character beyond ASCII is a digit or cased.\<close>

definition plain_tables :: unicode where
  "plain_tables =
     \<lparr>uc_isdigit = (\<lambda>c. False), uc_isupper = (\<lambda>c. False),
      uc_lower = (\<lambda>c. [c]), uc_upper = (\<lambda>c. [c]), uc_float = (\<lambda>s. None)\<rparr>"

definition ascii_digit :: "nat \<Rightarrow> bool" where
  "ascii_digit c = (48 \<le> c \<and> c \<le> 57)"

text \<open>\<open>c.isdigit()\<close> for one character.\<close>

definition py_isdigit :: "unicode \<Rightarrow> nat \<Rightarrow> bool" where
  "py_isdigit U c = (if c < 128 then ascii_digit c else uc_isdigit U c)"





text \<open>The characters \<open>str.strip()\<close> removes: those for which \<open>str.isspace()\<close> holds.\<close>

definition py_isspace :: "nat \<Rightarrow> bool" where
  "py_isspace c =
     (c \<in> set [9, 10, 11, 12, 13, 28, 29, 30, 31, 32, 133, 160, 5760,
                  8232, 8233, 8239, 8287, 12288]
      \<or> (8192 \<le> c \<and> c \<le> 8202))"

definition py_strip :: "ustring \<Rightarrow> ustring" where
  "py_strip s = rev (dropWhile py_isspace (rev (dropWhile py_isspace s)))"

text \<open>\<open>s.replace(old, new)\<close>: the occurrences of \<open>old\<close> from the left, not overlapping.\<close>

function str_replace :: "ustring \<Rightarrow> ustring \<Rightarrow> ustring \<Rightarrow> ustring" where
  "str_replace old new [] = (if old = [] then new else [])"
| "str_replace old new (c # cs) =
     (if old = [] then new @ c # str_replace old new cs
      else if prefix old (c # cs)
        then new @ str_replace old new (drop (length old) (c # cs))
      else c # str_replace old new cs)"
  by pat_completeness auto
termination
  by (relation "measure (\<lambda>(old, new, s). length s)") auto


text \<open>\<open>sep.join(parts)\<close>.\<close>

fun join :: "ustring \<Rightarrow> ustring list \<Rightarrow> ustring" where
  "join sep [] = []"
| "join sep [p] = p"
| "join sep (p # q # ps) = p @ sep @ join sep (q # ps)"

section \<open>Amount parsing (\<open>services/google_sheets.py\<close>)\<close>

definition dec_val :: "ustring \<Rightarrow> nat" where
  "dec_val ds = foldl (\<lambda>a c. 10 * a + (c - 48)) 0 ds"

text \<open>
  \<open>float(cleaned)\<close> on the strings \<open>_parse_amount\<close> passes to it, which hold digit
  characters and dots only. An ASCII string of that kind is a float literal when it has at
  most one dot and at least one digit; anything else raises \<open>ValueError\<close>. The result is
  the decimal value the literal denotes, as a rational: the source's \<open>float\<close> is the
  double nearest to it, which is the same number for the amounts of a sheet
  (\<open>55696.00\<close> is a double).
\<close>

definition py_float :: "unicode \<Rightarrow> ustring \<Rightarrow> error + rat" where
  "py_float U s =
     (if list_all (\<lambda>c. c < 128) s then
        (let ip = takeWhile ascii_digit s; rest = dropWhile ascii_digit s in
         case rest of
           [] \<Rightarrow> if ip = [] then Inl ValueError else Inr (of_nat (dec_val ip))
         | c # fp \<Rightarrow>
             if c = 46 \<and> list_all ascii_digit fp \<and> (ip \<noteq> [] \<or> fp \<noteq> [])
             then Inr (of_nat (dec_val ip) + of_nat (dec_val fp) / 10 ^ length fp)
             else Inl ValueError)
      else (case uc_float U s of None \<Rightarrow> Inl ValueError | Some r \<Rightarrow> Inr r))"

text \<open>
  The two cleaning steps of \<open>_parse_amount\<close>: the four \<open>replace\<close> calls and
  \<open>strip\<close>, then the filter that keeps digits and the decimal point.
\<close>

definition amount_cleaned :: "unicode \<Rightarrow> ustring \<Rightarrow> ustring" where
  "amount_cleaned U amount =
     (let amount_str =
        py_strip (str_replace (ascii '' '') []
          (str_replace (ascii '','') []
            (str_replace (ascii ''Rs'') []
              (str_replace [8377] [] amount))))
      in filter (\<lambda>c. py_isdigit U c \<or> c = 46) amount_str)"

text \<open>
  \<open>_parse_amount\<close>. The \<open>try\<close> block's only raising call is \<open>float\<close>; the bare
  \<open>except\<close> turns its error into \<open>0.0\<close>.
\<close>

definition parse_amount :: "unicode \<Rightarrow> ustring \<Rightarrow> rat" where
  "parse_amount U amount =
     (if amount = [] then 0
      else let cleaned = amount_cleaned U amount in
        if cleaned \<noteq> [] then (case py_float U cleaned of Inr v \<Rightarrow> v | Inl e \<Rightarrow> 0)
        else 0)"

section \<open>Floating-point numbers\<close>

text \<open>
  A Python \<open>float\<close> is an IEEE 754 double. A finite one is named by the rational number
  it is exactly, so \<open>0.0\<close> and \<open>-0.0\<close> are one value; the others are the two
  infinities and \<open>nan\<close>.

  An operation yields the double nearest to its exact result, a tie going to the double
  with the even significand. Around a number \<open>x\<close> with
  \<open>2 ^ e \<le> \<bar>x\<bar> < 2 ^ (e + 1)\<close> the doubles are \<open>2 ^ (e - 52)\<close> apart, and
  \<open>2 ^ (- 1074)\<close> apart below \<open>2 ^ (- 1022)\<close>: that spacing is \<open>ulp x\<close>, and
  \<open>round_double x\<close> is the multiple of it nearest to \<open>x\<close>. A result that rounds to
  \<open>2 ^ 1024\<close> or beyond is an infinity.
\<close>

definition pow2 :: "int \<Rightarrow> rat" where
  "pow2 k = (if 0 \<le> k then 2 ^ nat k else 1 / 2 ^ nat (- k))"

text \<open>The number of binary digits of \<open>n\<close>, as \<open>int.bit_length\<close> gives it.\<close>

fun bit_length :: "nat \<Rightarrow> nat" where
  "bit_length n = (if n = 0 then 0 else Suc (bit_length (n div 2)))"

declare bit_length.simps [simp del]

text \<open>For \<open>x\<close> above zero, the exponent \<open>e\<close> with \<open>2 ^ e \<le> x < 2 ^ (e + 1)\<close>.\<close>

definition floor_log2 :: "rat \<Rightarrow> int" where
  "floor_log2 x =
     (if 1 \<le> x then int (bit_length (nat \<lfloor>x\<rfloor>)) - 1
      else - int (bit_length (nat (\<lceil>1 / x\<rceil> - 1))))"

definition round_half_even :: "rat \<Rightarrow> int" where
  "round_half_even x =
     (let n = \<lfloor>x\<rfloor>; r = x - of_int n in
      if r < 1 / 2 then n else if 1 / 2 < r then n + 1 else if even n then n else n + 1)"

definition ulp :: "rat \<Rightarrow> rat" where
  "ulp x = pow2 (max (floor_log2 \<bar>x\<bar>) (- 1022) - 52)"

definition round_double :: "rat \<Rightarrow> rat" where
  "round_double x = (if x = 0 then 0 else of_int (round_half_even (x / ulp x)) * ulp x)"

datatype pyfloat = Finite rat | PosInf | NegInf | NaN

definition to_double :: "rat \<Rightarrow> pyfloat" where
  "to_double x =
     (let y = round_double x in
      if y = 0 then Finite 0
      else if 1024 \<le> floor_log2 \<bar>y\<bar> then (if 0 < y then PosInf else NegInf)
      else Finite y)"

text \<open>\<open>a - b\<close> on two floats. No float operation raises.\<close>

fun float_sub :: "pyfloat \<Rightarrow> pyfloat \<Rightarrow> pyfloat" where
  "float_sub (Finite a) (Finite b) = to_double (a - b)"
| "float_sub NaN y = NaN"
| "float_sub x NaN = NaN"
| "float_sub PosInf PosInf = NaN"
| "float_sub NegInf NegInf = NaN"
| "float_sub PosInf y = PosInf"
| "float_sub NegInf y = NegInf"
| "float_sub (Finite a) PosInf = NegInf"
| "float_sub (Finite a) NegInf = PosInf"

text \<open>
  The conversion of an \<open>int\<close> to a \<open>float\<close> that arithmetic with a float operand
  performs: the nearest double, and \<open>OverflowError\<close> for an integer beyond the doubles.
\<close>

definition int_to_float :: "int \<Rightarrow> error + pyfloat" where
  "int_to_float n =
     (case to_double (of_int n) of Finite r \<Rightarrow> Inr (Finite r) | _ \<Rightarrow> Inl OverflowError)"

text \<open>
  \<open>a / b\<close> on two \<open>int\<close>s: \<open>ZeroDivisionError\<close> for a divisor of zero, otherwise the
  double nearest to the quotient, and \<open>OverflowError\<close> when that is beyond the doubles.
\<close>

definition int_truediv :: "int \<Rightarrow> int \<Rightarrow> error + rat" where
  "int_truediv a b =
     (if b = 0 then Inl ZeroDivisionError
      else case to_double (of_int a / of_int b) of
             Finite q \<Rightarrow> Inr q
           | _ \<Rightarrow> Inl OverflowError)"

section \<open>Dynamic values\<close>

text \<open>
  The values a webhook payload and a classifier record hold: what \<open>json.loads\<close> yields,
  and dates, which \<open>parse_call_outcome\<close> puts into its record. A dictionary is an
  association list read by \<open>map_of\<close>.
\<close>

type_synonym date = "nat \<times> nat \<times> nat"

datatype pyval =
    PNone
  | PBool bool
  | PInt int
  | PFloat pyfloat
  | PStr ustring
  | PDate date
  | PList "pyval list"
  | PDict "(ustring \<times> pyval) list"

type_synonym pydict = "(ustring \<times> pyval) list"

text \<open>Truth value testing: \<open>if v\<close>, \<open>not v\<close>, \<open>a and b\<close>, \<open>a or b\<close>.\<close>

fun py_truthy :: "pyval \<Rightarrow> bool" where
  "py_truthy PNone = False"
| "py_truthy (PBool b) = b"
| "py_truthy (PInt n) = (n \<noteq> 0)"
| "py_truthy (PFloat x) = (x \<noteq> Finite 0)"
| "py_truthy (PStr s) = (s \<noteq> [])"
| "py_truthy (PDate d) = True"
| "py_truthy (PList xs) = (xs \<noteq> [])"
| "py_truthy (PDict kvs) = (kvs \<noteq> [])"

text \<open>\<open>d.get(k, dflt)\<close> on a dictionary.\<close>

definition dict_get :: "pydict \<Rightarrow> ustring \<Rightarrow> pyval \<Rightarrow> pyval" where
  "dict_get kvs k dflt = (case map_of kvs k of Some v \<Rightarrow> v | None \<Rightarrow> dflt)"

text \<open>
  \<open>v.get(k, dflt)\<close> on any value: only a dictionary has the method, every other value
  raises \<open>AttributeError\<close>.
\<close>

fun py_get :: "pyval \<Rightarrow> ustring \<Rightarrow> pyval \<Rightarrow> error + pyval" where
  "py_get (PDict kvs) k dflt = Inr (dict_get kvs k dflt)"
| "py_get v k dflt = Inl AttributeError"

text \<open>Sequencing of calls that may raise: the first error ends the block.\<close>

definition ebind :: "error + 'a \<Rightarrow> ('a \<Rightarrow> error + 'b) \<Rightarrow> error + 'b" where
  "ebind m f = (case m of Inl e \<Rightarrow> Inl e | Inr x \<Rightarrow> f x)"

section \<open>The persistence store (\<open>database/models.py\<close>)\<close>

datatype PaymentStatus = PENDING | PAID | OVERDUE | DISPUTED | WILL_PAY

datatype CallStatus = COMPLETED | FAILED | NO_ANSWER | BUSY | VOICEMAIL | IN_PROGRESS

text \<open>
  The rows, each field named after its column with the table's prefix (\<open>cl_\<close>,
  \<open>inv_\<close>, \<open>log_\<close>). \<open>cl_pk\<close>, \<open>inv_pk\<close> and \<open>log_pk\<close> are the primary keys
  (the column \<open>id\<close> of each table); \<open>inv_client_id\<close> and \<open>log_invoice_id\<close> are the
  foreign keys. The creation and update time stamps, which the clock sets, are left out.
  The outcome columns of a call log hold whatever the handler assigned to the attribute, so
  they are dynamic values.
\<close>

record Client =
  cl_pk :: nat
  cl_client_name :: ustring
  cl_company_name :: ustring
  cl_contact_number :: ustring
  cl_email :: "ustring option"
  cl_google_sheet_id :: "ustring option"
  cl_preferred_language :: ustring

record Invoice =
  inv_pk :: nat
  inv_client_id :: nat
  inv_invoice_id :: ustring
  inv_amount_due :: rat
  inv_due_date :: date
  inv_payment_status :: PaymentStatus
  inv_remarks :: "ustring option"

record CallLog =
  log_pk :: nat
  log_invoice_id :: nat
  log_vapi_call_id :: ustring
  log_call_duration :: pyval
  log_call_status :: CallStatus
  log_transcript :: pyval
  log_summary :: pyval
  log_recording_url :: pyval
  log_payment_promised :: pyval
  log_payment_promise_date :: pyval
  log_needs_invoice_resend :: pyval
  log_customer_disputed :: pyval
  log_dispute_reason :: pyval
  log_next_follow_up_date :: pyval
  log_language_detected :: pyval
  log_customer_sentiment :: pyval
  log_call_outcome :: pyval
  log_cost :: pyval

record database =
  clients :: "Client list"
  invoices :: "Invoice list"
  call_logs :: "CallLog list"

text \<open>
  \<open>query(...).filter(...).first()\<close> is \<open>find\<close>: the first row, in insertion order,
  that satisfies the filter. A row loaded by the session and assigned to is written back in
  place: \<open>update_first\<close> rewrites that first row.
\<close>

fun update_first :: "('a \<Rightarrow> bool) \<Rightarrow> ('a \<Rightarrow> 'a) \<Rightarrow> 'a list \<Rightarrow> 'a list" where
  "update_first P f [] = []"
| "update_first P f (x # xs) = (if P x then f x # xs else x # update_first P f xs)"

text \<open>The key an \<open>Integer\<close> primary key column gives the next inserted row.\<close>

definition next_pk :: "nat list \<Rightarrow> nat" where
  "next_pk pks = Suc (foldr max pks 0)"

section \<open>Collaborators\<close>

text \<open>
  What the modelled code calls and the repository does not hold: library functions and the
  external services. Each is a parameter; the theorems hold for every choice of them.

  \<^item> \<open>env_describe\<close>: \<open>str(e)\<close> of an exception.
  \<^item> \<open>env_generate\<close>: the prompt built from the transcript and the summary, sent through
    \<open>model.generate_content\<close>, and the response's \<open>text\<close>; or the exception of any of them.
  \<^item> \<open>env_find_fenced\<close>, \<open>env_find_bare\<close>: \<open>re.search\<close> with the two patterns of
    \<open>_clean_json_response\<close> (a JSON object in a fenced block marked json, a bare JSON
    object), giving group 1 of the match.
  \<^item> \<open>env_json_loads\<close>: \<open>json.loads\<close>.
  \<^item> \<open>env_strptime\<close>: \<open>datetime.strptime(text, fmt).date()\<close>, \<open>None\<close> when it raises.
  \<^item> \<open>env_strftime\<close>, \<open>env_title\<close>, \<open>env_format\<close>: \<open>date.strftime\<close>, \<open>str.title\<close>
    and the text of a value inside an f-string.
  \<^item> \<open>env_date_sub\<close>: \<open>a - b\<close> on two dates, a \<open>timedelta\<close>, which is not among
    the values modelled. A decoded JSON payload holds no date.
  \<^item> \<open>env_bind\<close>: how the database driver binds a call id that is not a string to the
    text column it is compared with: the text it compares, or the driver's error.
  \<^item> \<open>env_accepts\<close>: whether the flush of an updated call log succeeds, that is whether
    the column types accept the values assigned.
  \<^item> \<open>env_place_call\<close>: \<open>vapi_service.make_outbound_call\<close>, which catches its own
    exceptions and returns the provider's call id or \<open>None\<close>.
\<close>

record env =
  env_describe :: "error \<Rightarrow> ustring"
  env_generate :: "pyval \<Rightarrow> pyval \<Rightarrow> error + ustring"
  env_find_fenced :: "ustring \<Rightarrow> ustring option"
  env_find_bare :: "ustring \<Rightarrow> ustring option"
  env_json_loads :: "ustring \<Rightarrow> error + pyval"
  env_strptime :: "ustring \<Rightarrow> ustring \<Rightarrow> date option"
  env_strftime :: "ustring \<Rightarrow> date \<Rightarrow> ustring"
  env_title :: "ustring \<Rightarrow> ustring"
  env_format :: "pyval \<Rightarrow> ustring"
  env_date_sub :: "date \<Rightarrow> date \<Rightarrow> error + pyval"
  env_bind :: "pyval \<Rightarrow> error + ustring"
  env_accepts :: "CallLog \<Rightarrow> bool"
  env_place_call :: "ustring \<Rightarrow> ustring \<Rightarrow> ustring \<Rightarrow> ustring \<Rightarrow> rat \<Rightarrow> date option \<Rightarrow> ustring option"

section \<open>The outcome classifier (\<open>services/response_parser.py\<close>)\<close>

text \<open>\<open>_clean_json_response\<close>.\<close>

definition clean_json_response :: "env \<Rightarrow> ustring \<Rightarrow> ustring" where
  "clean_json_response E text =
     (case env_find_fenced E text of
        Some g \<Rightarrow> g
      | None \<Rightarrow>
          (case env_find_bare E text of
             Some g \<Rightarrow> g
           | None \<Rightarrow> ascii ''{}''))"

text \<open>The record the \<open>except\<close> branch of \<open>parse_call_outcome\<close> returns.\<close>

definition fallback_outcome :: "env \<Rightarrow> error \<Rightarrow> pydict" where
  "fallback_outcome E e =
     [(ascii ''payment_status'', PStr (ascii ''other'')),
      (ascii ''payment_promised'', PBool False),
      (ascii ''payment_promise_date'', PNone),
      (ascii ''needs_invoice_resend'', PBool False),
      (ascii ''customer_disputed'', PBool False),
      (ascii ''dispute_reason'', PNone),
      (ascii ''next_follow_up_date'', PNone),
      (ascii ''language_detected'', PStr (ascii ''unknown'')),
      (ascii ''customer_sentiment'', PStr (ascii ''neutral'')),
      (ascii ''notes'', PStr (ascii ''Error parsing: '' @ env_describe E e)),
      (ascii ''call_outcome'', PStr (ascii ''unsuccessful''))]"

text \<open>
  One of the two date conversions: \<open>if result.get(key):\<close> with the inner \<open>try\<close> around
  \<open>strptime\<close>, whose bare \<open>except\<close> stores \<open>None\<close>. \<open>strptime\<close> raises
  \<open>TypeError\<close> on a value that is not a string and \<open>ValueError\<close> on a string it cannot
  read. \<open>result.get\<close> raises when the decoded JSON is not an object.
\<close>

definition convert_date :: "env \<Rightarrow> ustring \<Rightarrow> pyval \<Rightarrow> error + pyval" where
  "convert_date E key result =
     (case result of
        PDict kvs \<Rightarrow>
          (let v = dict_get kvs key PNone in
           if py_truthy v then
             Inr (PDict (AList.update key
                    (case v of
                       PStr s \<Rightarrow>
                         (case env_strptime E (ascii ''%Y-%m-%d'') s of
                            Some d \<Rightarrow> PDate d
                          | None \<Rightarrow> PNone)
                     | _ \<Rightarrow> PNone) kvs))
           else Inr (PDict kvs))
      | _ \<Rightarrow> Inl AttributeError)"

text \<open>The \<open>try\<close> block of \<open>parse_call_outcome\<close>.\<close>

definition parse_call_outcome_try :: "env \<Rightarrow> pyval \<Rightarrow> pyval \<Rightarrow> error + pyval" where
  "parse_call_outcome_try E transcript summary =
     ebind (env_generate E transcript
              (if py_truthy summary then summary else PStr (ascii ''Not provided'')))
       (\<lambda>text. ebind (env_json_loads E (clean_json_response E text))
       (\<lambda>result. ebind (convert_date E (ascii ''payment_promise_date'') result)
       (\<lambda>result. convert_date E (ascii ''next_follow_up_date'') result)))"

text \<open>
  \<open>parse_call_outcome\<close>: the \<open>try\<close> block, and the \<open>except Exception\<close> branch that
  returns the fallback record.
\<close>

definition parse_call_outcome :: "env \<Rightarrow> pyval \<Rightarrow> pyval \<Rightarrow> error + pyval" where
  "parse_call_outcome E transcript summary =
     (case parse_call_outcome_try E transcript summary of
        Inr result \<Rightarrow> Inr result
      | Inl e \<Rightarrow> Inr (PDict (fallback_outcome E e)))"

text \<open>
  \<open>generate_summary\<close>, part by part. A part that calls a method the value lacks
  (\<open>strftime\<close> on a value that is no date, \<open>title\<close> on one that is no string) raises
  \<open>AttributeError\<close>; \<open>join\<close> raises \<open>TypeError\<close> on notes that are no string.
\<close>

definition summary_status_part :: "pyval \<Rightarrow> ustring list" where
  "summary_status_part status =
     (if status = PStr (ascii ''paid'') then [ascii ''Customer confirmed payment already made'']
      else if status = PStr (ascii ''will_pay'') then [ascii ''Customer will make payment'']
      else if status = PStr (ascii ''disputed'') then [ascii ''Customer disputed the invoice'']
      else [])"

definition summary_promise_part :: "env \<Rightarrow> pyval \<Rightarrow> error + ustring list" where
  "summary_promise_part E parsed_outcome =
     ebind (py_get parsed_outcome (ascii ''payment_promised'') PNone)
       (\<lambda>promised.
          if py_truthy promised then
            ebind (py_get parsed_outcome (ascii ''payment_promise_date'') PNone)
              (\<lambda>promise_date.
                 if py_truthy promise_date then
                   (case promise_date of
                      PDate d \<Rightarrow>
                        Inr [ascii ''Promised to pay by '' @ env_strftime E (ascii ''%d %B %Y'') d]
                    | _ \<Rightarrow> Inl AttributeError)
                 else Inr [])
          else Inr [])"

definition summary_resend_part :: "pyval \<Rightarrow> error + ustring list" where
  "summary_resend_part parsed_outcome =
     ebind (py_get parsed_outcome (ascii ''needs_invoice_resend'') PNone)
       (\<lambda>resend. Inr (if py_truthy resend then [ascii ''Requested invoice to be resent''] else []))"

definition summary_dispute_part :: "env \<Rightarrow> pyval \<Rightarrow> error + ustring list" where
  "summary_dispute_part E parsed_outcome =
     ebind (py_get parsed_outcome (ascii ''customer_disputed'') PNone)
       (\<lambda>disputed.
          if py_truthy disputed then
            ebind (py_get parsed_outcome (ascii ''dispute_reason'')
                     (PStr (ascii ''No reason provided'')))
              (\<lambda>reason. Inr [ascii ''Dispute reason: '' @ env_format E reason])
          else Inr [])"

definition summary_title_part ::
  "env \<Rightarrow> pyval \<Rightarrow> ustring \<Rightarrow> ustring \<Rightarrow> ustring \<Rightarrow> error + ustring list" where
  "summary_title_part E parsed_outcome key dflt label =
     ebind (py_get parsed_outcome key (PStr dflt))
       (\<lambda>v. case v of
               PStr t \<Rightarrow> Inr [label @ env_title E t]
             | _ \<Rightarrow> Inl AttributeError)"

definition summary_notes_part :: "pyval \<Rightarrow> error + pyval list" where
  "summary_notes_part parsed_outcome =
     ebind (py_get parsed_outcome (ascii ''notes'') PNone)
       (\<lambda>notes. Inr (if py_truthy notes then [notes] else []))"

text \<open>\<open>" | ".join(summary_parts)\<close>, the last part being the notes as they came.\<close>

definition join_parts :: "ustring list \<Rightarrow> pyval list \<Rightarrow> error + ustring" where
  "join_parts parts notes =
     (case notes of
        [] \<Rightarrow> Inr (join (ascii '' | '') parts)
      | PStr n # rest \<Rightarrow> Inr (join (ascii '' | '') (parts @ [n]))
      | _ \<Rightarrow> Inl TypeError)"

definition generate_summary :: "env \<Rightarrow> pyval \<Rightarrow> error + ustring" where
  "generate_summary E parsed_outcome =
     ebind (py_get parsed_outcome (ascii ''payment_status'') (PStr (ascii ''unknown'')))
       (\<lambda>status. ebind (summary_promise_part E parsed_outcome)
       (\<lambda>promise. ebind (summary_resend_part parsed_outcome)
       (\<lambda>resend. ebind (summary_dispute_part E parsed_outcome)
       (\<lambda>dispute. ebind (summary_title_part E parsed_outcome (ascii ''language_detected'')
                            (ascii ''unknown'') (ascii ''Language: ''))
       (\<lambda>lang. ebind (summary_title_part E parsed_outcome (ascii ''customer_sentiment'')
                         (ascii ''neutral'') (ascii ''Sentiment: ''))
       (\<lambda>sentiment. ebind (summary_notes_part parsed_outcome)
       (\<lambda>notes. join_parts
                   (summary_status_part status @ promise @ resend @ dispute @ lang @ sentiment)
                   notes)))))))"

section \<open>The webhook reconciliation (\<open>services/call_orchestrator.py\<close>)\<close>

text \<open>
  A handler's result is the store it leaves and the last line it logs, which names the
  outcome. The text of a line is the literal part of the source's message, followed by the
  exception's text where the source interpolates the exception.
\<close>

datatype level = DEBUG | INFO | WARNING | ERROR

type_synonym log_line = "level \<times> ustring"

definition status_mapping :: "(ustring \<times> CallStatus) list" where
  "status_mapping =
     [(ascii ''queued'', IN_PROGRESS),
      (ascii ''ringing'', IN_PROGRESS),
      (ascii ''in-progress'', IN_PROGRESS),
      (ascii ''forwarding'', IN_PROGRESS),
      (ascii ''ended'', COMPLETED)]"

text \<open>
  \<open>status_mapping.get(status, CallStatus.IN_PROGRESS)\<close>. The key is hashed first: a list or
  a dictionary raises \<open>TypeError\<close>. Any other value that is no string equals no key.
\<close>

definition mapped_status :: "pyval \<Rightarrow> error + CallStatus" where
  "mapped_status status =
     (case status of
        PStr s \<Rightarrow> Inr (case map_of status_mapping s of Some c \<Rightarrow> c | None \<Rightarrow> IN_PROGRESS)
      | PList xs \<Rightarrow> Inl TypeError
      | PDict kvs \<Rightarrow> Inl TypeError
      | _ \<Rightarrow> Inr IN_PROGRESS)"

text \<open>
  The text the query \<open>CallLog.vapi_call_id == call_id\<close> compares the column with: the call
  id itself when it is a string, what the driver makes of it otherwise.
\<close>

definition bound_call_id :: "env \<Rightarrow> pyval \<Rightarrow> error + ustring" where
  "bound_call_id E call_id = (case call_id of PStr s \<Rightarrow> Inr s | _ \<Rightarrow> env_bind E call_id)"

text \<open>The \<open>try\<close> block of \<open>_handle_status_update\<close>.\<close>

definition handle_status_update_try ::
  "env \<Rightarrow> pyval \<Rightarrow> database \<Rightarrow> error + (database \<times> log_line)" where
  "handle_status_update_try E message db =
     ebind (py_get message (ascii ''call'') (PDict []))
       (\<lambda>call_data. ebind (py_get call_data (ascii ''id'') PNone)
       (\<lambda>call_id. ebind (py_get message (ascii ''status'') PNone)
       (\<lambda>status.
          if \<not> py_truthy call_id then Inr (db, (ERROR, ascii ''No call ID in status update''))
          else
            ebind (bound_call_id E call_id)
              (\<lambda>cid. case find (\<lambda>l. log_vapi_call_id l = cid) (call_logs db) of
                        Some call_log \<Rightarrow>
                          ebind (mapped_status status)
                            (\<lambda>mapped.
                               Inr (db\<lparr>call_logs :=
                                       update_first (\<lambda>l. log_vapi_call_id l = cid)
                                         (\<lambda>l. l\<lparr>log_call_status := mapped\<rparr>) (call_logs db)\<rparr>,
                                    (INFO, ascii ''Updated call status'')))
                      | None \<Rightarrow> Inr (db, (WARNING, ascii ''Call log not found for call ID''))))))"

text \<open>
  \<open>_handle_status_update\<close>. An exception inside the \<open>with get_db()\<close> block rolls the
  session back, so the \<open>except\<close> branch leaves the store as it was.
\<close>

definition handle_status_update ::
  "env \<Rightarrow> pyval \<Rightarrow> database \<Rightarrow> error + (database \<times> log_line)" where
  "handle_status_update E message db =
     (case handle_status_update_try E message db of
        Inr r \<Rightarrow> Inr r
      | Inl e \<Rightarrow> Inr (db, (ERROR, ascii ''Error handling status update: '' @ env_describe E e)))"

text \<open>
  \<open>a - b\<close> on two values. On integers it is exact (a \<open>bool\<close> is the integer 0 or 1).
  When one operand is a float the other is converted to a float and the difference is the
  double nearest to the exact one. Two dates are left to the collaborator, and every other
  pair of operands raises \<open>TypeError\<close>.
\<close>

definition as_int :: "pyval \<Rightarrow> int option" where
  "as_int v = (case v of PInt n \<Rightarrow> Some n | PBool b \<Rightarrow> Some (if b then 1 else 0) | _ \<Rightarrow> None)"

definition as_float :: "pyval \<Rightarrow> (error + pyfloat) option" where
  "as_float v =
     (case v of
        PFloat x \<Rightarrow> Some (Inr x)
      | PInt n \<Rightarrow> Some (int_to_float n)
      | PBool b \<Rightarrow> Some (Inr (Finite (if b then 1 else 0)))
      | _ \<Rightarrow> None)"

definition py_sub :: "env \<Rightarrow> pyval \<Rightarrow> pyval \<Rightarrow> error + pyval" where
  "py_sub E a b =
     (case (as_int a, as_int b) of
        (Some x, Some y) \<Rightarrow> Inr (PInt (x - y))
      | _ \<Rightarrow>
          (case (as_float a, as_float b) of
             (Some fa, Some fb) \<Rightarrow>
               ebind fa (\<lambda>x. ebind fb (\<lambda>y. Inr (PFloat (float_sub x y))))
           | _ \<Rightarrow>
               (case (a, b) of
                  (PDate d, PDate d') \<Rightarrow> env_date_sub E d d'
                | _ \<Rightarrow> Inl TypeError)))"

text \<open>
  The duration of \<open>_handle_end_of_call\<close>:
  \<open>ended_at - started_at if ended_at and started_at else 0\<close>.
\<close>

definition call_duration :: "env \<Rightarrow> pyval \<Rightarrow> pyval \<Rightarrow> error + pyval" where
  "call_duration E started_at ended_at =
     (if py_truthy ended_at \<and> py_truthy started_at then py_sub E ended_at started_at
      else Inr (PInt 0))"

text \<open>\<open>if not transcript: transcript = "No transcript available"\<close>.\<close>

definition transcript_or_placeholder :: "pyval \<Rightarrow> pyval" where
  "transcript_or_placeholder transcript =
     (if \<not> py_truthy transcript then PStr (ascii ''No transcript available'') else transcript)"

text \<open>The assignments to the call log found, \<open>call_log.call_status = ...\<close> onwards.\<close>

definition update_call_log ::
  "pyval \<Rightarrow> pyval \<Rightarrow> ustring \<Rightarrow> pyval \<Rightarrow> pyval \<Rightarrow> pydict \<Rightarrow> CallLog \<Rightarrow> CallLog" where
  "update_call_log duration transcript response_summary recording_url cost parsed_outcome call_log =
     call_log
       \<lparr>log_call_duration := duration,
        log_call_status := COMPLETED,
        log_transcript := transcript,
        log_summary := PStr response_summary,
        log_recording_url := recording_url,
        log_payment_promised := dict_get parsed_outcome (ascii ''payment_promised'') (PBool False),
        log_payment_promise_date := dict_get parsed_outcome (ascii ''payment_promise_date'') PNone,
        log_needs_invoice_resend :=
          dict_get parsed_outcome (ascii ''needs_invoice_resend'') (PBool False),
        log_customer_disputed := dict_get parsed_outcome (ascii ''customer_disputed'') (PBool False),
        log_dispute_reason := dict_get parsed_outcome (ascii ''dispute_reason'') PNone,
        log_next_follow_up_date := dict_get parsed_outcome (ascii ''next_follow_up_date'') PNone,
        log_language_detected := dict_get parsed_outcome (ascii ''language_detected'') PNone,
        log_customer_sentiment := dict_get parsed_outcome (ascii ''customer_sentiment'') PNone,
        log_call_outcome := dict_get parsed_outcome (ascii ''call_outcome'') PNone,
        log_cost := cost\<rparr>"

text \<open>\<open>parsed_outcome.get('payment_status') == 'paid'\<close>.\<close>

definition classified_paid :: "pydict \<Rightarrow> bool" where
  "classified_paid parsed_outcome =
     (dict_get parsed_outcome (ascii ''payment_status'') PNone = PStr (ascii ''paid''))"

text \<open>
  The \<open>with get_db()\<close> block of \<open>_handle_end_of_call\<close>. \<open>call_log.invoice\<close> and
  \<open>invoice.client\<close> load the row the foreign key names, or \<open>None\<close>, on which the next
  attribute access raises \<open>AttributeError\<close>. The write-back to the spreadsheet,
  \<open>_update_google_sheet_from_call\<close>, sits in a \<open>try\<close> of its own, raises nothing into the
  handler and touches no row of the store: it is not modelled. Leaving the block commits;
  a flush the column types refuse raises, and the session is rolled back.
\<close>

definition store_end_of_call ::
  "env \<Rightarrow> database \<Rightarrow> ustring \<Rightarrow> pyval \<Rightarrow> pyval \<Rightarrow> ustring \<Rightarrow> pyval \<Rightarrow> pyval \<Rightarrow> pydict
     \<Rightarrow> error + (database \<times> log_line)" where
  "store_end_of_call E db cid duration transcript response_summary recording_url cost parsed_outcome =
     (case find (\<lambda>l. log_vapi_call_id l = cid) (call_logs db) of
        None \<Rightarrow> Inr (db, (WARNING, ascii ''Call log not found for call ID''))
      | Some call_log \<Rightarrow>
          (case find (\<lambda>i. inv_pk i = log_invoice_id call_log) (invoices db) of
             None \<Rightarrow> Inl AttributeError
           | Some invoice \<Rightarrow>
               (case find (\<lambda>c. cl_pk c = inv_client_id invoice) (clients db) of
                  None \<Rightarrow> Inl AttributeError
                | Some client \<Rightarrow>
                    if env_accepts E
                         (update_call_log duration transcript response_summary recording_url
                            cost parsed_outcome call_log)
                    then
                      Inr (db\<lparr>call_logs :=
                              update_first (\<lambda>l. log_vapi_call_id l = cid)
                                (update_call_log duration transcript response_summary
                                   recording_url cost parsed_outcome)
                                (call_logs db),
                            invoices :=
                              (if classified_paid parsed_outcome
                               then update_first (\<lambda>i. inv_pk i = log_invoice_id call_log)
                                      (\<lambda>i. i\<lparr>inv_payment_status := PAID\<rparr>) (invoices db)
                               else invoices db)\<rparr>,
                           (INFO, ascii ''Successfully processed end-of-call report for call''))
                    else Inl StatementError)))"

text \<open>The \<open>try\<close> block of \<open>_handle_end_of_call\<close>.\<close>

definition handle_end_of_call_try ::
  "env \<Rightarrow> pyval \<Rightarrow> database \<Rightarrow> error + (database \<times> log_line)" where
  "handle_end_of_call_try E message db =
     ebind (py_get message (ascii ''call'') (PDict []))
       (\<lambda>call_data. ebind (py_get call_data (ascii ''id'') PNone)
       (\<lambda>call_id.
          if \<not> py_truthy call_id then Inr (db, (ERROR, ascii ''No call ID in end-of-call report''))
          else
            ebind (py_get message (ascii ''transcript'') (PStr []))
              (\<lambda>transcript. ebind (py_get message (ascii ''summary'') (PStr []))
              (\<lambda>summary. ebind (py_get call_data (ascii ''recordingUrl'') PNone)
              (\<lambda>recording_url. ebind (py_get call_data (ascii ''startedAt'') (PInt 0))
              (\<lambda>started_at. ebind (py_get call_data (ascii ''endedAt'') (PInt 0))
              (\<lambda>ended_at. ebind (call_duration E started_at ended_at)
              (\<lambda>duration. ebind (py_get call_data (ascii ''cost'') (PInt 0))
              (\<lambda>cost.
                 let transcript = transcript_or_placeholder transcript
                 in ebind (parse_call_outcome E transcript summary)
              (\<lambda>parsed_outcome. ebind (generate_summary E parsed_outcome)
              (\<lambda>response_summary. ebind (bound_call_id E call_id)
              (\<lambda>cid. case parsed_outcome of
                        PDict po \<Rightarrow>
                          store_end_of_call E db cid duration transcript response_summary
                            recording_url cost po
                      | _ \<Rightarrow> Inl AttributeError))))))))))))"

text \<open>\<open>_handle_end_of_call\<close>: the \<open>try\<close> block and its \<open>except Exception\<close>.\<close>

definition handle_end_of_call ::
  "env \<Rightarrow> pyval \<Rightarrow> database \<Rightarrow> error + (database \<times> log_line)" where
  "handle_end_of_call E message db =
     (case handle_end_of_call_try E message db of
        Inr r \<Rightarrow> Inr r
      | Inl e \<Rightarrow>
          Inr (db, (ERROR, ascii ''Error handling end-of-call report: '' @ env_describe E e)))"

text \<open>The \<open>try\<close> block of \<open>process_call_webhook\<close>.\<close>

definition process_call_webhook_try ::
  "env \<Rightarrow> pyval \<Rightarrow> database \<Rightarrow> error + (database \<times> log_line)" where
  "process_call_webhook_try E webhook_data db =
     ebind (py_get webhook_data (ascii ''message'') (PDict []))
       (\<lambda>message. ebind (py_get message (ascii ''type'') PNone)
       (\<lambda>message_type.
          if message_type = PStr (ascii ''status-update'') then handle_status_update E message db
          else if message_type = PStr (ascii ''end-of-call-report'')
            then handle_end_of_call E message db
          else if message_type = PStr (ascii ''transcript'')
            then Inr (db, (DEBUG, ascii ''Transcript update: ''))
          else Inr (db, (WARNING, ascii ''Unknown webhook message type: ''))))"

definition process_call_webhook ::
  "env \<Rightarrow> pyval \<Rightarrow> database \<Rightarrow> error + (database \<times> log_line)" where
  "process_call_webhook E webhook_data db =
     (case process_call_webhook_try E webhook_data db of
        Inr r \<Rightarrow> Inr r
      | Inl e \<Rightarrow> Inr (db, (ERROR, ascii ''Error processing call webhook: '' @ env_describe E e)))"


definition classified :: "env \<Rightarrow> pydict \<Rightarrow> error + pyval" where
  "classified E m =
     parse_call_outcome E
       (transcript_or_placeholder (dict_get m (ascii ''transcript'') (PStr [])))
       (dict_get m (ascii ''summary'') (PStr []))"


section \<open>The webhook route (\<open>api/routes/webhook.py\<close>)\<close>

datatype http_response = Received | Http500 ustring

text \<open>
  \<open>vapi_webhook\<close>. The argument \<open>body\<close> is the outcome of \<open>await request.json()\<close>: the
  decoded payload, or the exception of a body that is no JSON. The route's own log line reads
  \<open>payload.get('message', {}).get('type', 'unknown')\<close> before the orchestrator is called.
  Every exception in the \<open>try\<close> block becomes a response with status 500 that carries the
  exception's text.
\<close>

definition vapi_webhook ::
  "env \<Rightarrow> error + pyval \<Rightarrow> database \<Rightarrow> http_response \<times> database" where
  "vapi_webhook E body db =
     (case ebind body
             (\<lambda>payload. ebind (py_get payload (ascii ''message'') (PDict []))
             (\<lambda>message. ebind (py_get message (ascii ''type'') (PStr (ascii ''unknown'')))
             (\<lambda>logged. process_call_webhook E payload db))) of
        Inr (db', line) \<Rightarrow> (Received, db')
      | Inl e \<Rightarrow> (Http500 (env_describe E e), db))"

section \<open>The outbound batch (\<open>services/call_orchestrator.py\<close>)\<close>

record settings =
  google_sheet_id :: ustring
  call_rate_limit_per_minute :: int

text \<open>
  A payment dictionary as \<open>get_pending_payments\<close> builds it, each key with the prefix
  \<open>p_\<close>. The two keys \<open>sync_to_database\<close> adds, \<open>db_invoice_id\<close> and
  \<open>db_client_id\<close>, are \<open>None\<close> while the dictionary lacks them.
\<close>

record payment =
  p_client_name :: ustring
  p_company_name :: ustring
  p_contact_number :: ustring
  p_invoice_id :: ustring
  p_amount_due :: rat
  p_due_date :: "date option"
  p_payment_status :: ustring
  p_row_number :: nat
  p_db_invoice_id :: "nat option"
  p_db_client_id :: "nat option"

text \<open>\<open>sheet_id or settings.google_sheet_id\<close>, and the test \<open>if sheet_id\<close>.\<close>

definition sheet_given :: "ustring option \<Rightarrow> bool" where
  "sheet_given sheet_id = (case sheet_id of Some sid \<Rightarrow> sid \<noteq> [] | None \<Rightarrow> False)"

definition sheet_or_default :: "settings \<Rightarrow> ustring option \<Rightarrow> ustring" where
  "sheet_or_default S sheet_id =
     (case sheet_id of
        Some sid \<Rightarrow> if sid \<noteq> [] then sid else google_sheet_id S
      | None \<Rightarrow> google_sheet_id S)"

text \<open>
  The first half of the loop body of \<open>sync_to_database\<close>: the client is looked up by
  contact number, created when absent, and given the sheet id when one is supplied and
  differs. The result is the session's store and the client object.
\<close>

definition sync_client ::
  "settings \<Rightarrow> ustring option \<Rightarrow> payment \<Rightarrow> database \<Rightarrow> database \<times> Client" where
  "sync_client S sheet_id payment db =
     (case find (\<lambda>c. cl_contact_number c = p_contact_number payment) (clients db) of
        None \<Rightarrow>
          (let client =
             \<lparr>cl_pk = next_pk (map cl_pk (clients db)),
              cl_client_name = p_client_name payment,
              cl_company_name = p_company_name payment,
              cl_contact_number = p_contact_number payment,
              cl_email = None,
              cl_google_sheet_id = Some (sheet_or_default S sheet_id),
              cl_preferred_language = ascii ''hindi''\<rparr>
           in (db\<lparr>clients := clients db @ [client]\<rparr>, client))
      | Some client \<Rightarrow>
          if sheet_given sheet_id \<and> cl_google_sheet_id client \<noteq> sheet_id
          then (db\<lparr>clients :=
                      update_first (\<lambda>c. cl_contact_number c = p_contact_number payment)
                        (\<lambda>c. c\<lparr>cl_google_sheet_id := sheet_id\<rparr>) (clients db)\<rparr>,
                client\<lparr>cl_google_sheet_id := sheet_id\<rparr>)
          else (db, client))"

text \<open>
  The second half: the invoice is looked up by its external identifier and created in
  status \<open>pending\<close> when absent. \<open>Invoice.due_date\<close> is declared \<open>nullable=False\<close>:
  flushing an invoice whose due date is \<open>None\<close> raises \<open>IntegrityError\<close>.
\<close>

definition sync_invoice :: "payment \<Rightarrow> Client \<Rightarrow> database \<Rightarrow> error + (database \<times> Invoice)" where
  "sync_invoice payment client db =
     (case find (\<lambda>i. inv_invoice_id i = p_invoice_id payment) (invoices db) of
        Some invoice \<Rightarrow> Inr (db, invoice)
      | None \<Rightarrow>
          (case p_due_date payment of
             None \<Rightarrow> Inl IntegrityError
           | Some d \<Rightarrow>
               (let invoice =
                  \<lparr>inv_pk = next_pk (map inv_pk (invoices db)),
                   inv_client_id = cl_pk client,
                   inv_invoice_id = p_invoice_id payment,
                   inv_amount_due = p_amount_due payment,
                   inv_due_date = d,
                   inv_payment_status = PENDING,
                   inv_remarks = None\<rparr>
                in Inr (db\<lparr>invoices := invoices db @ [invoice]\<rparr>, invoice))))"

definition sync_payment ::
  "settings \<Rightarrow> ustring option \<Rightarrow> payment \<Rightarrow> database \<Rightarrow> error + (database \<times> payment)" where
  "sync_payment S sheet_id payment db =
     (case sync_client S sheet_id payment db of
        (db1, client) \<Rightarrow>
          ebind (sync_invoice payment client db1)
            (\<lambda>(db2, invoice).
               Inr (db2, payment\<lparr>p_db_invoice_id := Some (inv_pk invoice),
                                 p_db_client_id := Some (cl_pk client)\<rparr>)))"

text \<open>The \<open>for payment in payments\<close> loop inside one session.\<close>

fun sync_loop ::
  "settings \<Rightarrow> ustring option \<Rightarrow> payment list \<Rightarrow> database \<Rightarrow> error + (database \<times> payment list)"
where
  "sync_loop S sheet_id [] db = Inr (db, [])"
| "sync_loop S sheet_id (payment # rest) db =
     ebind (sync_payment S sheet_id payment db)
       (\<lambda>(db1, payment1).
          ebind (sync_loop S sheet_id rest db1)
            (\<lambda>(db2, rest2). Inr (db2, payment1 # rest2)))"

text \<open>
  \<open>sync_to_database\<close>. The function has no \<open>try\<close> of its own: an exception leaves the
  \<open>with get_db()\<close> block, which rolls the session back, and reaches the caller. The result
  is what the call returns (the payments with their database ids, or the exception) and the
  store it leaves.
\<close>

definition sync_to_database ::
  "settings \<Rightarrow> ustring option \<Rightarrow> payment list \<Rightarrow> database \<Rightarrow> (error + payment list) \<times> database"
where
  "sync_to_database S sheet_id payments db =
     (case sync_loop S sheet_id payments db of
        Inr (db', payments') \<Rightarrow> (Inr payments', db')
      | Inl e \<Rightarrow> (Inl e, db))"

text \<open>
  A payment is settled in a store when the store holds a client with its contact number,
  associated with the sheet id if one is supplied, and an invoice with its identifier.
\<close>

definition settled :: "ustring option \<Rightarrow> database \<Rightarrow> payment \<Rightarrow> bool" where
  "settled sheet_id db payment =
     ((case find (\<lambda>c. cl_contact_number c = p_contact_number payment) (clients db) of
         None \<Rightarrow> False
       | Some c \<Rightarrow> \<not> sheet_given sheet_id \<or> cl_google_sheet_id c = sheet_id)
      \<and> find (\<lambda>i. inv_invoice_id i = p_invoice_id payment) (invoices db) \<noteq> None)"

text \<open>The call log \<open>make_single_call\<close> adds, with the defaults of the columns.\<close>

definition new_call_log :: "nat \<Rightarrow> nat \<Rightarrow> ustring \<Rightarrow> CallLog" where
  "new_call_log pk db_invoice_id call_id =
     \<lparr>log_pk = pk,
      log_invoice_id = db_invoice_id,
      log_vapi_call_id = call_id,
      log_call_duration = PNone,
      log_call_status = IN_PROGRESS,
      log_transcript = PNone,
      log_summary = PNone,
      log_recording_url = PNone,
      log_payment_promised = PBool False,
      log_payment_promise_date = PNone,
      log_needs_invoice_resend = PBool False,
      log_customer_disputed = PBool False,
      log_dispute_reason = PNone,
      log_next_follow_up_date = PNone,
      log_language_detected = PNone,
      log_customer_sentiment = PNone,
      log_call_outcome = PNone,
      log_cost = PNone\<rparr>"

text \<open>
  The \<open>try\<close> block of \<open>make_single_call\<close>. \<open>payment['db_invoice_id']\<close> raises
  \<open>KeyError\<close> on a payment that was never synchronised, and the unique provider call id
  makes the flush of a second log with the same id raise \<open>IntegrityError\<close>.
\<close>

definition make_single_call_try ::
  "env \<Rightarrow> payment \<Rightarrow> database \<Rightarrow> error + (database \<times> log_line)" where
  "make_single_call_try E payment db =
     (case env_place_call E (p_client_name payment) (p_company_name payment)
             (p_contact_number payment) (p_invoice_id payment) (p_amount_due payment)
             (p_due_date payment) of
        None \<Rightarrow> Inr (db, (ERROR, ascii ''Failed to initiate call for ''))
      | Some call_id \<Rightarrow>
          if call_id = [] then Inr (db, (ERROR, ascii ''Failed to initiate call for ''))
          else
            (case p_db_invoice_id payment of
               None \<Rightarrow> Inl KeyError
             | Some db_invoice_id \<Rightarrow>
                 if call_id \<in> set (map log_vapi_call_id (call_logs db)) then Inl IntegrityError
                 else
                   Inr (db\<lparr>call_logs :=
                           call_logs db
                           @ [new_call_log (next_pk (map log_pk (call_logs db)))
                                db_invoice_id call_id]\<rparr>,
                        (INFO, ascii ''Call initiated successfully. Call ID: ''))))"

definition make_single_call ::
  "env \<Rightarrow> payment \<Rightarrow> database \<Rightarrow> error + (database \<times> log_line)" where
  "make_single_call E payment db =
     (case make_single_call_try E payment db of
        Inr r \<Rightarrow> Inr r
      | Inl e \<Rightarrow> Inr (db, (ERROR, ascii ''Error making call: '' @ env_describe E e)))"

text \<open>
  What the batch does, in order: a call placed for a payment, or a blocking
  \<open>await asyncio.sleep(d)\<close> of \<open>d\<close> seconds.
\<close>

datatype event = Call payment | Sleep rat

text \<open>
  The loop of \<open>make_calls_with_rate_limit\<close> over \<open>enumerate(payments)\<close>: \<open>n\<close> is
  \<open>len(payments)\<close> and \<open>i\<close> the index of the payment at the head.
\<close>

fun calls_loop ::
  "env \<Rightarrow> rat \<Rightarrow> nat \<Rightarrow> nat \<Rightarrow> payment list \<Rightarrow> database \<times> event list
     \<Rightarrow> error + (database \<times> event list)"
where
  "calls_loop E delay n i [] st = Inr st"
| "calls_loop E delay n i (payment # rest) (db, trace) =
     ebind (make_single_call E payment db)
       (\<lambda>(db', line).
          calls_loop E delay n (Suc i) rest
            (db', trace @ Call payment # (if i < n - 1 then [Sleep delay] else [])))"

text \<open>
  \<open>make_calls_with_rate_limit\<close>. The rate limit is an \<open>int\<close> setting, so
  \<open>60 / rate_limit\<close> is the double nearest to the quotient, and raises
  \<open>ZeroDivisionError\<close> for a limit of zero, before any call.
\<close>

definition make_calls_with_rate_limit ::
  "settings \<Rightarrow> env \<Rightarrow> payment list \<Rightarrow> database \<Rightarrow> error + (database \<times> event list)" where
  "make_calls_with_rate_limit S E payments db =
     ebind (int_truediv 60 (call_rate_limit_per_minute S))
       (\<lambda>delay_between_calls.
          calls_loop E delay_between_calls (length payments) 0 payments (db, []))"

text \<open>
  The time a sequence of events takes when a call takes \<open>took payment\<close> seconds and
  \<open>asyncio.sleep(d)\<close> suspends for \<open>d\<close> seconds, returning at once for \<open>d \<le> 0\<close>.
\<close>

fun elapsed :: "(payment \<Rightarrow> rat) \<Rightarrow> event list \<Rightarrow> rat" where
  "elapsed took [] = 0"
| "elapsed took (Call payment # evs) = took payment + elapsed took evs"
| "elapsed took (Sleep d # evs) = max 0 d + elapsed took evs"

section \<open>Reading the sheet (\<open>services/google_sheets.py\<close>)\<close>















text \<open>
  The schedule the specification describes for a batch: the calls in the order of the
  list, and a delay after each call except the last. \<open>calls\<close> and \<open>sleeps\<close> read
  the calls and the delays off a sequence of events.
\<close>

fun schedule :: "rat \<Rightarrow> payment list \<Rightarrow> event list" where
  "schedule delay [] = []"
| "schedule delay [p] = [Call p]"
| "schedule delay (p # q # ps) = Call p # Sleep delay # schedule delay (q # ps)"

fun calls :: "event list \<Rightarrow> payment list" where
  "calls [] = []"
| "calls (Call p # evs) = p # calls evs"
| "calls (Sleep d # evs) = calls evs"

fun sleeps :: "event list \<Rightarrow> rat list" where
  "sleeps [] = []"
| "sleeps (Call p # evs) = sleeps evs"
| "sleeps (Sleep d # evs) = d # sleeps evs"

section \<open>An environment for the examples\<close>

text \<open>
  Collaborators for evaluating the model on concrete inputs: the language model's reply holds
  no JSON object that the two searches find unless \<open>found\<close> gives one, and the text
  \<open>{}\<close> decodes to the empty object, every other text to \<open>reply\<close>. No date string is
  readable, titles leave the text as it is, the driver refuses a call id that is no string,
  the store accepts every call log, and the provider places no call.
\<close>

definition sample_env :: "ustring option \<Rightarrow> pyval \<Rightarrow> env" where
  "sample_env found reply =
     \<lparr>env_describe = (\<lambda>e. ascii ''error''),
      env_generate = (\<lambda>transcript summary. Inr (ascii ''reply'')),
      env_find_fenced = (\<lambda>text. None),
      env_find_bare = (\<lambda>text. found),
      env_json_loads = (\<lambda>text. if text = ascii ''{}'' then Inr (PDict []) else Inr reply),
      env_strptime = (\<lambda>fmt text. None),
      env_strftime = (\<lambda>fmt d. []),
      env_title = (\<lambda>text. text),
      env_format = (\<lambda>v. []),
      env_date_sub = (\<lambda>a b. Inl TypeError),
      env_bind = (\<lambda>v. Inl StatementError),
      env_accepts = (\<lambda>l. True),
      env_place_call = (\<lambda>client company number invoice amount due. None)\<rparr>"


definition sample_payment :: payment where
  "sample_payment =
     \<lparr>p_client_name = ascii ''Mobile No. 9876543210'',
      p_company_name = ascii ''Mobile No. 9876543210'',
      p_contact_number = ascii ''+919876543210'',
      p_invoice_id = ascii ''INV-1'',
      p_amount_due = 55696,
      p_due_date = None,
      p_payment_status = ascii ''pending'',
      p_row_number = 12,
      p_db_invoice_id = None,
      p_db_client_id = None\<rparr>"

text \<open>Settings with the default rate limit, and a store without rows.\<close>

definition sample_settings :: settings where
  "sample_settings = \<lparr>google_sheet_id = ascii ''default-sheet'', call_rate_limit_per_minute = 10\<rparr>"

definition empty_db :: database where
  "empty_db = \<lparr>clients = [], invoices = [], call_logs = []\<rparr>"

text \<open>
  A store with one client, one pending invoice and the log of one call in progress, and the
  two kinds of webhook payload for a call.
\<close>

definition sample_db :: database where
  "sample_db =
     \<lparr>clients =
        [\<lparr>cl_pk = 1, cl_client_name = ascii ''Asha'', cl_company_name = ascii ''Asha Traders'',
          cl_contact_number = ascii ''+919876543210'', cl_email = None,
          cl_google_sheet_id = Some (ascii ''default-sheet''),
          cl_preferred_language = ascii ''hindi''\<rparr>],
      invoices =
        [\<lparr>inv_pk = 1, inv_client_id = 1, inv_invoice_id = ascii ''INV-1'',
          inv_amount_due = 1000, inv_due_date = (2024, 1, 1),
          inv_payment_status = PENDING, inv_remarks = None\<rparr>],
      call_logs = [new_call_log 1 1 (ascii ''call-1'')]\<rparr>"

definition status_update :: "ustring \<Rightarrow> ustring \<Rightarrow> pyval" where
  "status_update cid status =
     PDict [(ascii ''message'',
             PDict [(ascii ''type'', PStr (ascii ''status-update'')),
                    (ascii ''call'', PDict [(ascii ''id'', PStr cid)]),
                    (ascii ''status'', PStr status)])]"

definition report_call :: "ustring \<Rightarrow> pyval \<Rightarrow> pyval \<Rightarrow> pydict" where
  "report_call cid started_at ended_at =
     [(ascii ''id'', PStr cid), (ascii ''startedAt'', started_at), (ascii ''endedAt'', ended_at)]"

definition report_message :: "ustring \<Rightarrow> pyval \<Rightarrow> pyval \<Rightarrow> pydict" where
  "report_message cid started_at ended_at =
     [(ascii ''type'', PStr (ascii ''end-of-call-report'')),
      (ascii ''call'', PDict (report_call cid started_at ended_at)),
      (ascii ''transcript'', PStr (ascii ''I have paid.''))]"

definition end_of_call_report :: "ustring \<Rightarrow> pyval \<Rightarrow> pyval \<Rightarrow> pyval" where
  "end_of_call_report cid started_at ended_at =
     PDict [(ascii ''message'', PDict (report_message cid started_at ended_at))]"



section \<open>Properties\<close>

subsection \<open>Rounding to a double\<close>

text \<open>Evaluating \<open>floor\<close> on a quotient of numerals.\<close>

lemma floor_numeral_quotient:
  "\<lfloor>numeral a / numeral b :: rat\<rfloor> = numeral a div numeral b"
  "\<lfloor>- (numeral a / numeral b) :: rat\<rfloor> = - numeral a div numeral b"
  using floor_divide_of_int_eq[of "numeral a" "numeral b", where ?'a = rat]
    floor_divide_of_int_eq[of "- numeral a" "numeral b", where ?'a = rat]
  by simp_all

lemmas double_eval =
  round_double_def ulp_def floor_log2_def bit_length.simps pow2_def round_half_even_def
  to_double_def Let_def ceiling_def floor_numeral_quotient

lemma pow2_pos: "0 < pow2 k"
  by (simp add: pow2_def)

lemma pow2_le_one: "k \<le> 0 \<Longrightarrow> pow2 k \<le> 1"
  by (simp add: pow2_def field_simps)

lemma round_half_even_close: "\<bar>of_int (round_half_even x) - x\<bar> \<le> 1 / 2"
proof -
  define n where "n = \<lfloor>x\<rfloor>"
  define r where "r = x - of_int n"
  have r: "0 \<le> r" "r < 1" unfolding r_def n_def by linarith+
  have x: "x = of_int n + r" by (simp add: r_def)
  have "round_half_even x = (if r < 1 / 2 then n else if 1 / 2 < r then n + 1
                              else if even n then n else n + 1)"
    by (simp add: round_half_even_def Let_def n_def r_def)
  then have "round_half_even x = n \<and> r \<le> 1 / 2 \<or> round_half_even x = n + 1 \<and> 1 / 2 \<le> r"
    by (auto split: if_splits)
  then show ?thesis
  proof
    assume "round_half_even x = n \<and> r \<le> 1 / 2"
    then show ?thesis using r by (simp add: x)
  next
    assume "round_half_even x = n + 1 \<and> 1 / 2 \<le> r"
    then show ?thesis using r by (simp add: x)
  qed
qed

lemma round_double_close: "\<bar>round_double x - x\<bar> \<le> ulp x / 2"
proof (cases "x = 0")
  case True
  then show ?thesis using pow2_pos[of "max (floor_log2 \<bar>x\<bar>) (- 1022) - 52"]
    by (simp add: round_double_def ulp_def)
next
  case False
  have u: "0 < ulp x" by (simp add: ulp_def pow2_pos)
  have "round_double x - x = (of_int (round_half_even (x / ulp x)) - x / ulp x) * ulp x"
    using False u by (simp add: round_double_def field_simps)
  then have "\<bar>round_double x - x\<bar> = \<bar>of_int (round_half_even (x / ulp x)) - x / ulp x\<bar> * ulp x"
    using u by (simp add: abs_mult)
  also have "\<dots> \<le> (1 / 2) * ulp x"
    using round_half_even_close[of "x / ulp x"] u by (intro mult_right_mono) auto
  finally show ?thesis by simp
qed

lemma bit_length_le: "n < 2 ^ k \<Longrightarrow> bit_length n \<le> k"
proof (induction k arbitrary: n)
  case 0
  then show ?case by (simp add: bit_length.simps)
next
  case (Suc k)
  show ?case
  proof (cases "n = 0")
    case True
    then show ?thesis by (simp add: bit_length.simps)
  next
    case False
    from Suc.prems have "n div 2 < 2 ^ k" by simp
    from Suc.IH[OF this] False show ?thesis by (subst bit_length.simps) simp
  qed
qed

lemma bit_length_pos: "0 < n \<Longrightarrow> 0 < bit_length n"
  by (subst bit_length.simps) simp

lemma bit_length_lower: "0 < n \<Longrightarrow> 2 ^ (bit_length n - 1) \<le> n"
proof (induction n rule: bit_length.induct)
  case (1 n)
  show ?case
  proof (cases "n div 2 = 0")
    case True
    with 1 have "n = 1" by (auto simp: div_eq_0_iff)
    then show ?thesis by (simp add: bit_length.simps)
  next
    case False
    with 1 have ih: "2 ^ (bit_length (n div 2) - 1) \<le> n div 2" by simp
    from False have p: "0 < bit_length (n div 2)" by (simp add: bit_length_pos)
    have "bit_length n = Suc (bit_length (n div 2))"
      using 1(2) by (subst bit_length.simps) simp
    then have "2 ^ (bit_length n - 1) = 2 * 2 ^ (bit_length (n div 2) - 1)"
      using p by (cases "bit_length (n div 2)") simp_all
    also have "\<dots> \<le> 2 * (n div 2)" using ih by simp
    also have "\<dots> \<le> n" by simp
    finally show ?thesis .
  qed
qed

lemma bit_length_upper: "n < 2 ^ bit_length n"
proof (induction n rule: bit_length.induct)
  case (1 n)
  show ?case
  proof (cases "n = 0")
    case True
    then show ?thesis by simp
  next
    case False
    with 1 have ih: "n div 2 < 2 ^ bit_length (n div 2)" by simp
    have "bit_length n = Suc (bit_length (n div 2))"
      using False by (subst bit_length.simps) simp
    moreover have "n < 2 * (n div 2 + 1)" by presburger
    moreover have "2 * (n div 2 + 1) \<le> 2 * 2 ^ bit_length (n div 2)" using ih by simp
    ultimately show ?thesis by simp
  qed
qed

lemma floor_log2_less:
  assumes "0 < x" "x < 2 ^ k"
  shows "floor_log2 x < int k"
proof (cases "1 \<le> x")
  case True
  have "of_int \<lfloor>x\<rfloor> \<le> x" by simp
  with assms(2) have "(of_int \<lfloor>x\<rfloor> :: rat) < 2 ^ k" by linarith
  then have "\<lfloor>x\<rfloor> < 2 ^ k" by (metis of_int_less_iff of_int_numeral of_int_power)
  moreover from True have "0 \<le> \<lfloor>x\<rfloor>" by simp
  ultimately have "nat \<lfloor>x\<rfloor> < 2 ^ k" by (simp add: nat_less_iff)
  from bit_length_le[OF this] True show ?thesis by (simp add: floor_log2_def)
next
  case False
  with assms(1) have "1 < 1 / x" by simp
  then have "2 \<le> \<lceil>1 / x\<rceil>" by linarith
  then have "0 < nat (\<lceil>1 / x\<rceil> - 1)" by simp
  from bit_length_pos[OF this] False show ?thesis by (simp add: floor_log2_def)
qed

lemma floor_log2_bounds:
  assumes "0 < x"
  shows "pow2 (floor_log2 x) \<le> x \<and> x < pow2 (floor_log2 x + 1)"
proof (cases "1 \<le> x")
  case True
  define z where "z = \<lfloor>x\<rfloor>"
  have z: "1 \<le> z" "of_int z \<le> x" "x < of_int z + 1"
    unfolding z_def using True by linarith+
  let ?n = "nat z"
  from z have n: "0 < ?n" by simp
  have nz: "(of_nat ?n :: rat) = of_int z" using z(1) by simp
  have e: "floor_log2 x = int (bit_length ?n) - 1" using True by (simp add: floor_log2_def z_def)
  have bl: "0 < bit_length ?n" using n by (rule bit_length_pos)
  have "(2::rat) ^ (bit_length ?n - 1) \<le> of_nat ?n"
    using bit_length_lower[OF n] by (metis of_nat_le_iff of_nat_numeral of_nat_power)
  also have "\<dots> \<le> x" using z(2) nz by simp
  finally have lo: "pow2 (floor_log2 x) \<le> x"
    using bl by (simp add: e pow2_def nat_diff_distrib)
  have "x < of_nat (?n + 1)" using z(3) nz by simp
  also have "\<dots> \<le> (2::rat) ^ bit_length ?n"
    using bit_length_upper[of ?n] by (metis Suc_eq_plus1 Suc_leI of_nat_le_iff of_nat_numeral of_nat_power)
  finally have "x < pow2 (floor_log2 x + 1)"
    by (simp add: e pow2_def)
  with lo show ?thesis by simp
next
  case False
  define z where "z = \<lceil>1 / x\<rceil>"
  from False assms have y: "1 < 1 / x" by simp
  have z: "2 \<le> z" "1 / x \<le> of_int z" "of_int z - 1 < 1 / x"
    unfolding z_def using y by linarith+
  let ?m = "nat (z - 1)"
  from z have m: "0 < ?m" by simp
  have mz: "(of_nat ?m :: rat) = of_int z - 1" using z(1) by simp
  have e: "floor_log2 x = - int (bit_length ?m)" using False by (simp add: floor_log2_def z_def)
  have bl: "0 < bit_length ?m" using m by (rule bit_length_pos)
  have "1 / x \<le> of_nat (?m + 1)" using z(2) mz by simp
  also have "\<dots> \<le> (2::rat) ^ bit_length ?m"
    using bit_length_upper[of ?m] by (metis Suc_eq_plus1 Suc_leI of_nat_le_iff of_nat_numeral of_nat_power)
  finally have "1 / x \<le> 2 ^ bit_length ?m" .
  then have lo: "pow2 (floor_log2 x) \<le> x"
    using assms bl by (simp add: e pow2_def field_simps)
  have "(2::rat) ^ (bit_length ?m - 1) \<le> of_nat ?m"
    using bit_length_lower[OF m] by (metis of_nat_le_iff of_nat_numeral of_nat_power)
  also have "\<dots> < 1 / x" using z(3) mz by simp
  finally have "(2::rat) ^ (bit_length ?m - 1) < 1 / x" .
  then have "x * 2 ^ (bit_length ?m - 1) < 1" using assms by (simp add: field_simps)
  then have "x < pow2 (floor_log2 x + 1)"
    using bl assms by (cases "bit_length ?m") (auto simp: e pow2_def field_simps)
  with lo show ?thesis by simp
qed

lemma pow2_powi: "pow2 k = 2 powi k"
  by (simp add: pow2_def power_int_def power_inverse inverse_eq_divide power_one_over)

lemma pow2_mono: "a \<le> b \<Longrightarrow> pow2 a \<le> pow2 b"
  by (simp add: pow2_powi power_int_increasing)

lemma pow2_add: "pow2 (a + b) = pow2 a * pow2 b"
  by (simp add: pow2_powi power_int_add)

lemma to_double_finite:
  assumes "\<bar>x\<bar> \<le> 60"
  shows "to_double x = Finite (round_double x)"
proof (cases "round_double x = 0")
  case True
  then show ?thesis by (simp add: to_double_def)
next
  case False
  then have x0: "x \<noteq> 0" by (auto simp: round_double_def)
  have "\<bar>x\<bar> < 2 ^ 6" using assms by simp
  with x0 have "floor_log2 \<bar>x\<bar> < int 6" by (intro floor_log2_less) auto
  then have "max (floor_log2 \<bar>x\<bar>) (- 1022) - 52 \<le> 0" by simp
  then have "ulp x \<le> 1" unfolding ulp_def by (rule pow2_le_one)
  moreover have "\<bar>round_double x\<bar> \<le> \<bar>x\<bar> + \<bar>round_double x - x\<bar>"
    using abs_triangle_ineq[of x "round_double x - x"] by simp
  ultimately have "\<bar>round_double x\<bar> < 2 ^ 7"
    using round_double_close[of x] assms by simp
  with False have "floor_log2 \<bar>round_double x\<bar> < int 7" by (intro floor_log2_less) auto
  with False show ?thesis by (simp add: to_double_def Let_def)
qed

lemma round_double_relative:
  assumes "pow2 (- 1022) \<le> \<bar>x\<bar>"
  shows "\<bar>round_double x - x\<bar> \<le> \<bar>x\<bar> / 2 ^ 53"
proof -
  have pos: "0 < \<bar>x\<bar>" using assms pow2_pos[of "- 1022"] by linarith
  note b = floor_log2_bounds[OF pos]
  have "- 1022 \<le> floor_log2 \<bar>x\<bar>"
  proof (rule ccontr)
    assume "\<not> - 1022 \<le> floor_log2 \<bar>x\<bar>"
    then have "floor_log2 \<bar>x\<bar> + 1 \<le> - 1022" by simp
    from pow2_mono[OF this] b assms show False by linarith
  qed
  then have "ulp x = pow2 (floor_log2 \<bar>x\<bar> + (- 52))" by (simp add: ulp_def max_def)
  also have "\<dots> = pow2 (floor_log2 \<bar>x\<bar>) / 2 ^ 52" by (simp only: pow2_add) (simp add: pow2_def[of "- 52"])
  also have "\<dots> \<le> \<bar>x\<bar> / 2 ^ 52" using b by (simp add: divide_right_mono)
  finally have "ulp x / 2 \<le> \<bar>x\<bar> / 2 ^ 53" by simp
  with round_double_close[of x] show ?thesis by linarith
qed


text \<open>
  The quotient \<open>60 / R\<close> never overflows: for every \<open>R\<close> other than zero the division
  returns the double nearest to the quotient.
\<close>

lemma int_truediv_sixty:
  assumes "R \<noteq> 0"
  shows "int_truediv 60 R = Inr (round_double (60 / of_int R))"
proof -
  have "\<bar>of_int R :: rat\<bar> \<ge> 1" using assms by (simp add: abs_if)
  then have "\<bar>60 / of_int R :: rat\<bar> \<le> 60"
    by (simp add: abs_divide field_simps)
  from to_double_finite[OF this] assms show ?thesis
    by (simp add: int_truediv_def)
qed


subsection \<open>Amount parsing\<close>

lemma set_py_strip: "set (py_strip s) \<subseteq> set s"
  unfolding py_strip_def
  by (metis set_rev set_dropWhileD subsetI)

lemma set_str_replace_del: "set (str_replace old [] s) \<subseteq> set s"
proof (induction old "[]::nat list" s rule: str_replace.induct)
  case (1 old)
  then show ?case by simp
next
  case (2 old c cs)
  have "set (drop (length old) (c # cs)) \<subseteq> set (c # cs)"
    by (rule set_drop_subset)
  with 2 show ?case by auto
qed

lemma set_amount_cleaned:
  "set (amount_cleaned U s) \<subseteq> {c \<in> set s. py_isdigit U c \<or> c = 46}"
proof -
  have "set (py_strip (str_replace (ascii '' '') []
          (str_replace (ascii '','') []
            (str_replace (ascii ''Rs'') []
              (str_replace [8377] [] s))))) \<subseteq> set s"
    by (meson set_py_strip set_str_replace_del subset_trans)
  then show ?thesis
    by (auto simp: amount_cleaned_def Let_def)
qed

text \<open>A cleaned string of dots alone is no float literal.\<close>

lemma py_float_dots:
  assumes "list_all (\<lambda>c. c = 46) cl"
  shows "py_float U cl = Inl ValueError"
proof (cases cl)
  case Nil
  then show ?thesis by (simp add: py_float_def)
next
  case (Cons c fp)
  with assms have c: "c = 46" and fp: "list_all (\<lambda>c. c = 46) fp" by simp_all
  have nd: "\<not> ascii_digit 46" by (simp add: ascii_digit_def)
  have small: "list_all (\<lambda>c. c < 128) cl"
    using assms by (induction cl) auto
  have "list_all ascii_digit fp \<Longrightarrow> fp = []"
    using fp nd by (cases fp) auto
  then show ?thesis
    using small Cons c nd by (auto simp: py_float_def Let_def)
qed

lemma parse_amount_no_digit:
  assumes "list_all (\<lambda>c. \<not> py_isdigit U c) s"
  shows "parse_amount U s = 0"
proof -
  have "\<forall>c \<in> set (amount_cleaned U s). c = 46"
    using set_amount_cleaned[of U s] assms by (auto simp: list_all_iff)
  then have "list_all (\<lambda>c. c = 46) (amount_cleaned U s)"
    by (simp add: list_all_iff)
  then have "py_float U (amount_cleaned U s) = Inl ValueError"
    by (rule py_float_dots)
  then show ?thesis by (simp add: parse_amount_def Let_def)
qed

lemmas amount_eval =
  parse_amount_def amount_cleaned_def py_float_def py_strip_def py_isspace_def
  py_isdigit_def ascii_digit_def dec_val_def ascii_def Let_def

text \<open>
  C8. The four amounts of the specification parse to 55696, whatever the Unicode tables;
  the empty string parses to 0; and so does every input that cannot be parsed: one with no
  digit character at all, and one whose cleaned text \<open>float\<close> rejects. The function
  returns a number on every input, so nothing is raised.
\<close>

theorem parse_amount_spec:
  "parse_amount U ([8377] @ ascii ''55,696.00'') = 55696 \<and>
   parse_amount U (ascii ''55696'') = 55696 \<and>
   parse_amount U (ascii ''Rs 55,696'') = 55696 \<and>
   parse_amount U (ascii '' 55,696.00 '') = 55696 \<and>
   parse_amount U [] = 0 \<and>
   (list_all (\<lambda>c. \<not> py_isdigit U c) s \<longrightarrow> parse_amount U s = 0) \<and>
   (py_float U (amount_cleaned U t) = Inl e \<longrightarrow> parse_amount U t = 0)"
proof -
  have "parse_amount U ([8377] @ ascii ''55,696.00'') = 55696"
    by (simp add: amount_eval)
  moreover have "parse_amount U (ascii ''55696'') = 55696"
    by (simp add: amount_eval)
  moreover have "parse_amount U (ascii ''Rs 55,696'') = 55696"
    by (simp add: amount_eval)
  moreover have "parse_amount U (ascii '' 55,696.00 '') = 55696"
    by (simp add: amount_eval)
  moreover have "parse_amount U [] = 0"
    by (simp add: parse_amount_def)
  moreover have "list_all (\<lambda>c. \<not> py_isdigit U c) s \<longrightarrow> parse_amount U s = 0"
    by (simp add: parse_amount_no_digit)
  moreover have "py_float U (amount_cleaned U t) = Inl e \<longrightarrow> parse_amount U t = 0"
    by (simp add: parse_amount_def Let_def)
  ultimately show ?thesis by blast
qed

theorem parse_amount_spec_witness:
  "list_all (\<lambda>c. \<not> py_isdigit plain_tables c) (ascii ''N/A'') \<and>
   parse_amount plain_tables (ascii ''N/A'') = 0 \<and>
   py_float plain_tables (amount_cleaned plain_tables (ascii ''1.2.3'')) = Inl ValueError \<and>
   parse_amount plain_tables (ascii ''1.2.3'') = 0"
proof -
  have a: "list_all (\<lambda>c. \<not> py_isdigit plain_tables c) (ascii ''N/A'')"
    by (simp add: py_isdigit_def ascii_digit_def ascii_def)
  have b: "py_float plain_tables (amount_cleaned plain_tables (ascii ''1.2.3'')) = Inl ValueError"
    by (simp add: amount_eval)
  show ?thesis
    using a b parse_amount_spec [of plain_tables "ascii ''N/A''" "ascii ''1.2.3''" ValueError]
    by blast
qed

subsection \<open>The outcome classifier\<close>

lemma ebind_simps [simp]:
  "ebind (Inl e) f = Inl e"
  "ebind (Inr x) f = f x"
  by (simp_all add: ebind_def)

lemma convert_date_dict:
  "convert_date E key result = Inr v \<Longrightarrow> \<exists>kvs. v = PDict kvs"
  by (auto simp: convert_date_def Let_def split: pyval.splits if_splits)

lemma parse_try_dict:
  "parse_call_outcome_try E t s = Inr v \<Longrightarrow> \<exists>kvs. v = PDict kvs"
  unfolding parse_call_outcome_try_def
  by (auto simp: ebind_def split: sum.splits dest: convert_date_dict)

lemma parse_call_outcome_total:
  "\<exists>kvs. parse_call_outcome E t s = Inr (PDict kvs)"
  unfolding parse_call_outcome_def
  by (auto split: sum.splits dest: parse_try_dict)














subsection \<open>Reading the sheet\<close>




















subsection \<open>The rate-limited batch\<close>

lemma make_single_call_total: "\<exists>db' line. make_single_call E payment db = Inr (db', line)"
  by (auto simp: make_single_call_def split: sum.splits)

lemma calls_loop_trace:
  assumes "n = i + length ps"
  shows "\<exists>db'. calls_loop E delay n i ps (db, trace) = Inr (db', trace @ schedule delay ps)"
  using assms
proof (induction ps arbitrary: i db trace)
  case Nil
  then show ?case by simp
next
  case (Cons p ps)
  obtain db1 line where c: "make_single_call E p db = Inr (db1, line)"
    using make_single_call_total by blast
  show ?case
  proof (cases ps)
    case Nil
    with Cons.prems c show ?thesis by simp
  next
    case (Cons q qs)
    with Cons.prems have lt: "i < n - 1" by simp
    from Cons.prems have "n = Suc i + length ps" by simp
    from Cons.IH[OF this, of db1 "trace @ [Call p, Sleep delay]"]
    obtain db' where "calls_loop E delay n (Suc i) ps (db1, trace @ [Call p, Sleep delay])
        = Inr (db', (trace @ [Call p, Sleep delay]) @ schedule delay ps)" by blast
    with c lt Cons show ?thesis by simp
  qed
qed

lemma calls_schedule: "calls (schedule delay ps) = ps"
  by (induction delay ps rule: schedule.induct) auto

lemma sleeps_schedule: "sleeps (schedule delay ps) = replicate (length ps - 1) delay"
  by (induction delay ps rule: schedule.induct) auto

lemma elapsed_schedule:
  assumes "\<And>p. 0 \<le> took p"
  shows "of_nat (length ps - 1) * delay \<le> elapsed took (schedule delay ps)"
proof (induction delay ps rule: schedule.induct)
  case (1 delay)
  then show ?case by simp
next
  case (2 delay p)
  then show ?case using assms by simp
next
  case (3 delay p q ps)
  have "of_nat (length (p # q # ps) - 1) * delay = delay + of_nat (length (q # ps) - 1) * delay"
    by (simp add: algebra_simps)
  also have "\<dots> \<le> max 0 delay + elapsed took (schedule delay (q # ps))"
    using 3 by (simp add: max_def)
  also have "\<dots> \<le> took p + (max 0 delay + elapsed took (schedule delay (q # ps)))"
    using assms[of p] by simp
  finally show ?case by simp
qed

text \<open>
  C6, as the code has it. For a non-empty list of payments and a rate limit \<open>R\<close> other
  than zero, \<open>make_calls_with_rate_limit\<close> returns, and what it did is the schedule of the
  specification: one call per payment in the order of the list, each after the events
  before it, and a blocking delay after every call but the last, \<open>N - 1\<close> delays in all.
  The delay is what \<open>60 / R\<close> evaluates to, the double nearest to the quotient: it lies
  within half a unit in the last place of \<open>60 / R\<close>, which is a relative error of at most
  \<open>2 ^ (- 53)\<close>, and need not equal it. Whatever time the calls take, the batch takes at
  least \<open>N - 1\<close> times that delay. (For \<open>R = 0\<close> the division raises and no call is
  placed.)
\<close>

theorem rate_limited_dispatch:
  assumes "payments \<noteq> []" and "call_rate_limit_per_minute S \<noteq> 0"
  shows "\<exists>db' trace.
     make_calls_with_rate_limit S E payments db = Inr (db', trace) \<and>
     trace = schedule (round_double (60 / of_int (call_rate_limit_per_minute S))) payments \<and>
     calls trace = payments \<and>
     sleeps trace =
       replicate (length payments - 1)
         (round_double (60 / of_int (call_rate_limit_per_minute S))) \<and>
     ((\<forall>p. 0 \<le> took p) \<longrightarrow>
        (of_nat (length payments) - 1)
          * round_double (60 / of_int (call_rate_limit_per_minute S))
          \<le> elapsed took trace) \<and>
     \<bar>round_double (60 / of_int (call_rate_limit_per_minute S))
        - 60 / of_int (call_rate_limit_per_minute S)\<bar>
       \<le> ulp (60 / of_int (call_rate_limit_per_minute S)) / 2 \<and>
     (\<bar>call_rate_limit_per_minute S\<bar> \<le> 2 ^ 1022 \<longrightarrow>
        \<bar>round_double (60 / of_int (call_rate_limit_per_minute S))
           - 60 / of_int (call_rate_limit_per_minute S)\<bar>
          \<le> \<bar>60 / of_int (call_rate_limit_per_minute S)\<bar> / 2 ^ 53)"
proof -
  let ?R = "call_rate_limit_per_minute S"
  let ?d = "round_double (60 / of_int ?R)"
  obtain db' where run: "calls_loop E ?d (length payments) 0 payments (db, [])
      = Inr (db', [] @ schedule ?d payments)"
    using calls_loop_trace[of "length payments" 0 payments E ?d db "[]"] by auto
  have n: "(of_nat (length payments) - 1 :: rat) = of_nat (length payments - 1)"
    using assms(1) by (cases payments) simp_all
  have el: "(\<forall>p. 0 \<le> took p) \<longrightarrow>
      (of_nat (length payments) - 1) * ?d \<le> elapsed took (schedule ?d payments)"
    unfolding n using elapsed_schedule[of took payments ?d] by blast
  have half: "\<bar>?d - 60 / of_int ?R\<bar> \<le> ulp (60 / of_int ?R) / 2"
    by (rule round_double_close)
  have rel: "\<bar>?R\<bar> \<le> 2 ^ 1022 \<longrightarrow> \<bar>?d - 60 / of_int ?R\<bar> \<le> \<bar>60 / of_int ?R\<bar> / 2 ^ 53"
  proof
    assume "\<bar>?R\<bar> \<le> 2 ^ 1022"
    then have "(of_int \<bar>?R\<bar> :: rat) \<le> of_int (2 ^ 1022)" by (simp only: of_int_le_iff)
    then have le: "\<bar>of_int ?R :: rat\<bar> \<le> 2 ^ 1022" by simp
    have pos: "0 < \<bar>of_int ?R :: rat\<bar>" using assms(2) by simp
    have "pow2 (- 1022) = 1 / 2 ^ 1022" by (simp add: pow2_def)
    also have "\<dots> \<le> 1 / \<bar>of_int ?R :: rat\<bar>"
      using le pos by (intro divide_left_mono) simp_all
    also have "\<dots> \<le> 60 / \<bar>of_int ?R :: rat\<bar>"
      using pos by (intro divide_right_mono) simp_all
    finally have "pow2 (- 1022) \<le> \<bar>60 / of_int ?R :: rat\<bar>" by (simp add: abs_divide)
    then show "\<bar>?d - 60 / of_int ?R\<bar> \<le> \<bar>60 / of_int ?R\<bar> / 2 ^ 53"
      by (rule round_double_relative)
  qed
  have "make_calls_with_rate_limit S E payments db = Inr (db', schedule ?d payments)"
    using run by (simp add: make_calls_with_rate_limit_def int_truediv_sixty[OF assms(2)])
  with el half rel show ?thesis
    by (simp add: calls_schedule sleeps_schedule)
qed

lemma sample_not_placed:
  "make_single_call (sample_env None PNone) sample_payment empty_db
     = Inr (empty_db, (ERROR, ascii ''Failed to initiate call for ''))"
  by (simp add: make_single_call_def make_single_call_try_def sample_env_def)

theorem rate_limited_dispatch_witness:
  "[sample_payment, sample_payment] \<noteq> [] \<and>
   call_rate_limit_per_minute sample_settings \<noteq> 0 \<and>
   round_double (60 / of_int (call_rate_limit_per_minute sample_settings)) = 6 \<and>
   (\<exists>db'. make_calls_with_rate_limit sample_settings (sample_env None PNone)
            [sample_payment, sample_payment] empty_db
          = Inr (db', [Call sample_payment, Sleep 6, Call sample_payment])) \<and>
   (of_nat (length [sample_payment, sample_payment]) - 1) * 6
     \<le> elapsed (\<lambda>p. 0) [Call sample_payment, Sleep 6, Call sample_payment]"
proof -
  have a: "[sample_payment, sample_payment] \<noteq> []" by simp
  have b: "call_rate_limit_per_minute sample_settings \<noteq> 0"
    by (simp add: sample_settings_def)
  have d: "round_double (60 / of_int (call_rate_limit_per_minute sample_settings)) = 6"
    by (simp add: sample_settings_def double_eval)
  have t: "\<forall>p::payment. (0::rat) \<le> (\<lambda>p. 0) p" by simp
  from rate_limited_dispatch [OF a b, of "sample_env None PNone" empty_db "\<lambda>p. 0"]
  obtain db' trace where
    r: "make_calls_with_rate_limit sample_settings (sample_env None PNone)
          [sample_payment, sample_payment] empty_db = Inr (db', trace)"
    and tr: "trace = schedule (round_double (60 / of_int (call_rate_limit_per_minute sample_settings)))
               [sample_payment, sample_payment]"
    and el: "(\<forall>p. (0::rat) \<le> (\<lambda>p. 0) p) \<longrightarrow>
        (of_nat (length [sample_payment, sample_payment]) - 1)
          * round_double (60 / of_int (call_rate_limit_per_minute sample_settings))
          \<le> elapsed (\<lambda>p. 0) trace"
    by blast
  from tr have tr': "trace = [Call sample_payment, Sleep 6, Call sample_payment]"
    unfolding d by simp
  from el t have "(of_nat (length [sample_payment, sample_payment]) - 1) * 6
      \<le> elapsed (\<lambda>p. 0) [Call sample_payment, Sleep 6, Call sample_payment]"
    unfolding d tr' by blast
  with a b d r tr' show ?thesis by blast
qed

text \<open>
  With a rate limit of 7 the delay between two calls is the double
  \<open>4825285315039817 / 2 ^ 49\<close>, which is below \<open>60 / 7\<close>: the delay inserted is not
  \<open>60 / R\<close> seconds, and a batch of two calls that take no time themselves is over before
  \<open>(N - 1) * (60 / R)\<close> seconds have passed.
\<close>

theorem rate_limited_dispatch_rounding_counterexample:
  "make_calls_with_rate_limit (sample_settings\<lparr>call_rate_limit_per_minute := 7\<rparr>)
     (sample_env None PNone) [sample_payment, sample_payment] empty_db
     = Inr (empty_db,
            [Call sample_payment, Sleep (4825285315039817 / 562949953421312),
             Call sample_payment]) \<and>
   (4825285315039817 / 562949953421312 :: rat) < 60 / 7 \<and>
   elapsed (\<lambda>p. 0)
     [Call sample_payment, Sleep (4825285315039817 / 562949953421312), Call sample_payment]
     < (of_nat (length [sample_payment, sample_payment]) - 1) * (60 / 7)"
proof -
  have "int_truediv 60 7 = Inr (4825285315039817 / 562949953421312)"
    by (simp add: int_truediv_def double_eval)
  then show ?thesis
    by (simp add: make_calls_with_rate_limit_def sample_not_placed)
qed

subsection \<open>Synchronising the store\<close>

lemma find_append_found: "find P xs = Some x \<Longrightarrow> find P (xs @ ys) = Some x"
  by (induction xs) auto

lemma find_append_new: "find P xs = None \<Longrightarrow> find P (xs @ [y]) = (if P y then Some y else None)"
  by (induction xs) auto

lemma find_update_first_same:
  "(\<And>x. P x \<Longrightarrow> P (f x)) \<Longrightarrow> find P (update_first P f xs) = map_option f (find P xs)"
  by (induction xs) auto

lemma find_update_first_other:
  "(\<And>x. Q x \<Longrightarrow> \<not> P x) \<Longrightarrow> (\<And>x. Q (f x) = Q x) \<Longrightarrow>
   find Q (update_first P f xs) = find Q xs"
  by (induction xs) auto

lemma sync_client_invoices: "sync_client S sid p db = (db1, c) \<Longrightarrow> invoices db1 = invoices db"
  by (auto simp: sync_client_def Let_def split: option.splits if_splits)

lemma sync_client_settled_fix:
  assumes "find (\<lambda>c. cl_contact_number c = p_contact_number p) (clients db) = Some c"
    and "\<not> sheet_given sid \<or> cl_google_sheet_id c = sid"
  shows "sync_client S sid p db = (db, c)"
  using assms by (auto simp: sync_client_def)

lemma sync_payment_fix:
  assumes "settled sid db p"
  shows "\<exists>p'. sync_payment S sid p db = Inr (db, p')"
proof -
  from assms obtain c where c: "find (\<lambda>c. cl_contact_number c = p_contact_number p) (clients db) = Some c"
    "\<not> sheet_given sid \<or> cl_google_sheet_id c = sid"
    by (auto simp: settled_def split: option.splits)
  from assms obtain i where i: "find (\<lambda>i. inv_invoice_id i = p_invoice_id p) (invoices db) = Some i"
    by (auto simp: settled_def)
  have "sync_client S sid p db = (db, c)" using c by (rule sync_client_settled_fix)
  moreover have "sync_invoice p c db = Inr (db, i)" using i by (simp add: sync_invoice_def)
  ultimately show ?thesis by (simp add: sync_payment_def)
qed

lemma sync_client_found:
  assumes "sync_client S sid p db = (db1, c)"
  shows "\<exists>c'. find (\<lambda>c. cl_contact_number c = p_contact_number p) (clients db1) = Some c' \<and>
          (\<not> sheet_given sid \<or> cl_google_sheet_id c' = sid)"
proof (cases "find (\<lambda>c. cl_contact_number c = p_contact_number p) (clients db)")
  case None
  with assms show ?thesis
    by (auto simp: sync_client_def Let_def find_append_new sheet_given_def sheet_or_default_def
        split: option.splits)
next
  case (Some c0)
  show ?thesis
  proof (cases "sheet_given sid \<and> cl_google_sheet_id c0 \<noteq> sid")
    case True
    with Some assms have
      "clients db1 = update_first (\<lambda>c. cl_contact_number c = p_contact_number p)
                        (\<lambda>c. c\<lparr>cl_google_sheet_id := sid\<rparr>) (clients db)"
      by (auto simp: sync_client_def)
    then show ?thesis using Some
      by (simp add: find_update_first_same)
  next
    case False
    with Some assms have "db1 = db" by (auto simp: sync_client_def)
    with Some False show ?thesis by auto
  qed
qed

lemma sync_client_keeps:
  assumes "sync_client S sid p db = (db1, c)"
    and "find (\<lambda>c. cl_contact_number c = p_contact_number q) (clients db) = Some cq"
    and "\<not> sheet_given sid \<or> cl_google_sheet_id cq = sid"
  shows "\<exists>c'. find (\<lambda>c. cl_contact_number c = p_contact_number q) (clients db1) = Some c' \<and>
          (\<not> sheet_given sid \<or> cl_google_sheet_id c' = sid)"
proof (cases "p_contact_number q = p_contact_number p")
  case True
  then show ?thesis using sync_client_found[OF assms(1)] by simp
next
  case False
  show ?thesis
  proof (cases "find (\<lambda>c. cl_contact_number c = p_contact_number p) (clients db)")
    case None
    with assms(1) have "\<exists>new. clients db1 = clients db @ [new]"
      by (auto simp: sync_client_def Let_def)
    then show ?thesis using assms(2,3) by (auto simp: find_append_found)
  next
    case (Some c0)
    show ?thesis
    proof (cases "sheet_given sid \<and> cl_google_sheet_id c0 \<noteq> sid")
      case True
      with Some assms(1) have
        "clients db1 = update_first (\<lambda>c. cl_contact_number c = p_contact_number p)
                          (\<lambda>c. c\<lparr>cl_google_sheet_id := sid\<rparr>) (clients db)"
        by (auto simp: sync_client_def)
      moreover have "find (\<lambda>c. cl_contact_number c = p_contact_number q)
           (update_first (\<lambda>c. cl_contact_number c = p_contact_number p)
                          (\<lambda>c. c\<lparr>cl_google_sheet_id := sid\<rparr>) (clients db))
          = find (\<lambda>c. cl_contact_number c = p_contact_number q) (clients db)"
        using False by (intro find_update_first_other) auto
      ultimately show ?thesis using assms(2,3) by simp
    next
      case False
      with Some assms(1) have "db1 = db" by (auto simp: sync_client_def)
      with assms(2,3) show ?thesis by auto
    qed
  qed
qed

lemma sync_invoice_clients: "sync_invoice p c db = Inr (db2, i) \<Longrightarrow> clients db2 = clients db"
  by (auto simp: sync_invoice_def Let_def split: option.splits)

lemma sync_invoice_found:
  "sync_invoice p c db = Inr (db2, i) \<Longrightarrow>
   find (\<lambda>i. inv_invoice_id i = p_invoice_id p) (invoices db2) \<noteq> None"
  by (auto simp: sync_invoice_def Let_def find_append_new split: option.splits)

lemma sync_invoice_keeps:
  "sync_invoice p c db = Inr (db2, i) \<Longrightarrow>
   find (\<lambda>i. inv_invoice_id i = p_invoice_id q) (invoices db) \<noteq> None \<Longrightarrow>
   find (\<lambda>i. inv_invoice_id i = p_invoice_id q) (invoices db2) \<noteq> None"
  by (auto simp: sync_invoice_def Let_def find_append_found split: option.splits)

lemma sync_payment_split:
  assumes "sync_payment S sid p db = Inr (db', p')"
  obtains db1 c i where "sync_client S sid p db = (db1, c)" "sync_invoice p c db1 = Inr (db', i)"
  using assms
  by (auto simp: sync_payment_def ebind_def split: prod.splits sum.splits)

lemma sync_payment_settles:
  assumes "sync_payment S sid p db = Inr (db', p')"
  shows "settled sid db' p"
proof -
  from assms obtain db1 c i where
    c: "sync_client S sid p db = (db1, c)" and i: "sync_invoice p c db1 = Inr (db', i)"
    by (rule sync_payment_split)
  from sync_client_found[OF c] sync_invoice_clients[OF i] sync_invoice_found[OF i]
  show ?thesis by (auto simp: settled_def)
qed

lemma sync_payment_keeps:
  assumes "sync_payment S sid p db = Inr (db', p')" and "settled sid db q"
  shows "settled sid db' q"
proof -
  from assms(1) obtain db1 c i where
    c: "sync_client S sid p db = (db1, c)" and i: "sync_invoice p c db1 = Inr (db', i)"
    by (rule sync_payment_split)
  from assms(2) obtain cq where cq:
    "find (\<lambda>c. cl_contact_number c = p_contact_number q) (clients db) = Some cq"
    "\<not> sheet_given sid \<or> cl_google_sheet_id cq = sid"
    by (auto simp: settled_def split: option.splits)
  from assms(2) have iq: "find (\<lambda>i. inv_invoice_id i = p_invoice_id q) (invoices db) \<noteq> None"
    by (simp add: settled_def)
  from sync_client_keeps[OF c cq] sync_invoice_clients[OF i]
  have "\<exists>c'. find (\<lambda>c. cl_contact_number c = p_contact_number q) (clients db') = Some c' \<and>
          (\<not> sheet_given sid \<or> cl_google_sheet_id c' = sid)" by simp
  moreover from iq sync_client_invoices[OF c] sync_invoice_keeps[OF i, of q]
  have "find (\<lambda>i. inv_invoice_id i = p_invoice_id q) (invoices db') \<noteq> None" by simp
  ultimately show ?thesis by (auto simp: settled_def)
qed

lemma sync_loop_settles:
  assumes "sync_loop S sid ps db = Inr (db', ps')" and "list_all (settled sid db) qs"
  shows "list_all (settled sid db') (qs @ ps)"
  using assms
proof (induction ps arbitrary: db ps' qs)
  case Nil
  then show ?case by simp
next
  case (Cons p ps)
  from Cons.prems(1) obtain db1 p1 ps2 where
    s1: "sync_payment S sid p db = Inr (db1, p1)" and s2: "sync_loop S sid ps db1 = Inr (db', ps2)"
    by (auto simp: ebind_def split: sum.splits prod.splits)
  have "list_all (settled sid db1) (qs @ [p])"
    using Cons.prems(2) sync_payment_keeps[OF s1] sync_payment_settles[OF s1]
    by (auto simp: list_all_iff)
  from Cons.IH[OF s2 this] show ?case by simp
qed

lemma sync_loop_fix:
  assumes "list_all (settled sid db) ps"
  shows "\<exists>ps'. sync_loop S sid ps db = Inr (db, ps')"
  using assms
proof (induction ps)
  case Nil
  then show ?case by simp
next
  case (Cons p ps)
  then obtain p' ps' where "sync_payment S sid p db = Inr (db, p')"
    "sync_loop S sid ps db = Inr (db, ps')"
    using sync_payment_fix[of sid db p S] by auto
  then show ?case by simp
qed

text \<open>
  C4. Applying \<open>sync_to_database\<close> a second time to the same payments and sheet id
  leaves the store exactly as the first application left it: no client and no invoice is
  added and no field of a row changes. (When the first application raises, its session is
  rolled back, and so is that of the second.) The time stamps are not part of the model.
\<close>

theorem sync_to_database_idempotent:
  "snd (sync_to_database S sheet_id payments (snd (sync_to_database S sheet_id payments db)))
     = snd (sync_to_database S sheet_id payments db)"
proof (cases "sync_loop S sheet_id payments db")
  case (Inl e)
  then show ?thesis by (simp add: sync_to_database_def)
next
  case (Inr r)
  then obtain db' ps' where r: "sync_loop S sheet_id payments db = Inr (db', ps')"
    by (cases r) auto
  from sync_loop_settles[OF r, of "[]"] have "list_all (settled sheet_id db') payments" by simp
  from sync_loop_fix[OF this, of S] obtain ps'' where
    "sync_loop S sheet_id payments db' = Inr (db', ps'')" by blast
  with r show ?thesis by (simp add: sync_to_database_def)
qed

theorem sync_to_database_idempotent_witness:
  "snd (sync_to_database sample_settings None [sample_payment\<lparr>p_due_date := Some (2024, 1, 1)\<rparr>]
          empty_db)
     = \<lparr>clients =
          [\<lparr>cl_pk = 1, cl_client_name = ascii ''Mobile No. 9876543210'',
            cl_company_name = ascii ''Mobile No. 9876543210'',
            cl_contact_number = ascii ''+919876543210'', cl_email = None,
            cl_google_sheet_id = Some (ascii ''default-sheet''),
            cl_preferred_language = ascii ''hindi''\<rparr>],
        invoices =
          [\<lparr>inv_pk = 1, inv_client_id = 1, inv_invoice_id = ascii ''INV-1'',
            inv_amount_due = 55696, inv_due_date = (2024, 1, 1),
            inv_payment_status = PENDING, inv_remarks = None\<rparr>],
        call_logs = []\<rparr> \<and>
   snd (sync_to_database sample_settings None [sample_payment\<lparr>p_due_date := Some (2024, 1, 1)\<rparr>]
          (snd (sync_to_database sample_settings None
                  [sample_payment\<lparr>p_due_date := Some (2024, 1, 1)\<rparr>] empty_db)))
     = snd (sync_to_database sample_settings None [sample_payment\<lparr>p_due_date := Some (2024, 1, 1)\<rparr>]
          empty_db)"
proof -
  have "snd (sync_to_database sample_settings None [sample_payment\<lparr>p_due_date := Some (2024, 1, 1)\<rparr>]
          empty_db)
     = \<lparr>clients =
          [\<lparr>cl_pk = 1, cl_client_name = ascii ''Mobile No. 9876543210'',
            cl_company_name = ascii ''Mobile No. 9876543210'',
            cl_contact_number = ascii ''+919876543210'', cl_email = None,
            cl_google_sheet_id = Some (ascii ''default-sheet''),
            cl_preferred_language = ascii ''hindi''\<rparr>],
        invoices =
          [\<lparr>inv_pk = 1, inv_client_id = 1, inv_invoice_id = ascii ''INV-1'',
            inv_amount_due = 55696, inv_due_date = (2024, 1, 1),
            inv_payment_status = PENDING, inv_remarks = None\<rparr>],
        call_logs = []\<rparr>"
    by (simp add: sync_to_database_def sync_payment_def sync_client_def sync_invoice_def
        sample_payment_def sample_settings_def empty_db_def sheet_or_default_def
        sheet_given_def next_pk_def Let_def)
  then show ?thesis
    using sync_to_database_idempotent [of sample_settings None
        "[sample_payment\<lparr>p_due_date := Some (2024, 1, 1)\<rparr>]" empty_db]
    by blast
qed

subsection \<open>The webhook reconciliation\<close>

lemma py_get_dict: "py_get (PDict kvs) k d = Inr (dict_get kvs k d)"
  by simp


lemma dict_get_Some: "map_of kvs k = Some v \<Longrightarrow> dict_get kvs k d = v"
  by (simp add: dict_get_def)


lemma handle_status_update_total:
  "\<exists>db' line. handle_status_update E message db = Inr (db', line)"
  unfolding handle_status_update_def
  by (cases "handle_status_update_try E message db") auto

lemma handle_end_of_call_total:
  "\<exists>db' line. handle_end_of_call E message db = Inr (db', line)"
  unfolding handle_end_of_call_def
  by (cases "handle_end_of_call_try E message db") auto

lemma process_call_webhook_total:
  "\<exists>db' line. process_call_webhook E payload db = Inr (db', line)"
  unfolding process_call_webhook_def
  by (cases "process_call_webhook_try E payload db") auto

lemma mapped_status_str:
  "mapped_status (PStr s) = Inr (if s = ascii ''ended'' then COMPLETED else IN_PROGRESS)"
  by (simp add: mapped_status_def status_mapping_def ascii_def)

lemma status_update_try_found:
  assumes "map_of m (ascii ''call'') = Some (PDict c)"
    and "map_of c (ascii ''id'') = Some (PStr cid)" and "cid \<noteq> []"
    and "map_of m (ascii ''status'') = Some (PStr status)"
    and "find (\<lambda>l. log_vapi_call_id l = cid) (call_logs db) = Some call_log"
  shows "handle_status_update_try E (PDict m) db =
      Inr (db\<lparr>call_logs :=
                update_first (\<lambda>l. log_vapi_call_id l = cid)
                  (\<lambda>l. l\<lparr>log_call_status :=
                             (if status = ascii ''ended'' then COMPLETED else IN_PROGRESS)\<rparr>)
                  (call_logs db)\<rparr>,
           (INFO, ascii ''Updated call status''))"
  using assms
  by (simp add: handle_status_update_try_def dict_get_Some bound_call_id_def mapped_status_str)

lemma webhook_try_dispatch:
  assumes "map_of w (ascii ''message'') = Some (PDict m)"
  shows "process_call_webhook_try E (PDict w) db =
     (let message_type = dict_get m (ascii ''type'') PNone in
       if message_type = PStr (ascii ''status-update'') then handle_status_update E (PDict m) db
          else if message_type = PStr (ascii ''end-of-call-report'')
            then handle_end_of_call E (PDict m) db
          else if message_type = PStr (ascii ''transcript'')
            then Inr (db, (DEBUG, ascii ''Transcript update: ''))
          else Inr (db, (WARNING, ascii ''Unknown webhook message type: '')))"
  using assms by (simp add: process_call_webhook_try_def dict_get_Some)

lemma type_names_differ:
  "ascii ''status-update'' \<noteq> ascii ''end-of-call-report''"
  "ascii ''end-of-call-report'' \<noteq> ascii ''status-update''"
  by (simp_all add: ascii_def)

lemma webhook_status_update:
  assumes "map_of w (ascii ''message'') = Some (PDict m)"
    and "map_of m (ascii ''type'') = Some (PStr (ascii ''status-update''))"
  shows "process_call_webhook E (PDict w) db = handle_status_update E (PDict m) db"
proof -
  obtain db' line where "handle_status_update E (PDict m) db = Inr (db', line)"
    using handle_status_update_total by blast
  then show ?thesis
    using assms by (simp add: process_call_webhook_def webhook_try_dispatch dict_get_Some)
qed

lemma webhook_end_of_call:
  assumes "map_of w (ascii ''message'') = Some (PDict m)"
    and "map_of m (ascii ''type'') = Some (PStr (ascii ''end-of-call-report''))"
  shows "process_call_webhook E (PDict w) db = handle_end_of_call E (PDict m) db"
proof -
  obtain db' line where "handle_end_of_call E (PDict m) db = Inr (db', line)"
    using handle_end_of_call_total by blast
  then show ?thesis
    using assms
    by (simp add: process_call_webhook_def webhook_try_dispatch dict_get_Some type_names_differ)
qed

text \<open>
  C1. A status-update webhook whose call id is the id of a stored call log, with any string
  as its status, is processed without an exception: the fixed table maps \<open>queued\<close>,
  \<open>ringing\<close>, \<open>in-progress\<close> and \<open>forwarding\<close> to \<open>in_progress\<close>, \<open>ended\<close> to
  \<open>completed\<close> and every other string to \<open>in_progress\<close>, and the mapped status is what
  the call log holds afterwards. No client and no invoice changes.
\<close>

theorem status_update_maps_status:
  assumes "map_of w (ascii ''message'') = Some (PDict m)"
    and "map_of m (ascii ''type'') = Some (PStr (ascii ''status-update''))"
    and "map_of m (ascii ''call'') = Some (PDict c)"
    and "map_of c (ascii ''id'') = Some (PStr cid)" and "cid \<noteq> []"
    and "map_of m (ascii ''status'') = Some (PStr status)"
    and "find (\<lambda>l. log_vapi_call_id l = cid) (call_logs db) = Some call_log"
  shows "mapped_status (PStr status) =
           Inr (if status \<in> set [ascii ''queued'', ascii ''ringing'', ascii ''in-progress'',
                                  ascii ''forwarding'']
                then IN_PROGRESS
                else if status = ascii ''ended'' then COMPLETED
                else IN_PROGRESS) \<and>
         (\<exists>db' new_status.
            mapped_status (PStr status) = Inr new_status \<and>
            process_call_webhook E (PDict w) db = Inr (db', (INFO, ascii ''Updated call status'')) \<and>
            find (\<lambda>l. log_vapi_call_id l = cid) (call_logs db')
              = Some (call_log\<lparr>log_call_status := new_status\<rparr>) \<and>
            clients db' = clients db \<and> invoices db' = invoices db)"
proof -
  let ?new = "if status = ascii ''ended'' then COMPLETED else IN_PROGRESS"
  have tab: "mapped_status (PStr status) =
           Inr (if status \<in> set [ascii ''queued'', ascii ''ringing'', ascii ''in-progress'',
                                  ascii ''forwarding'']
                then IN_PROGRESS
                else if status = ascii ''ended'' then COMPLETED
                else IN_PROGRESS)"
    by (simp add: mapped_status_def status_mapping_def ascii_def)
  have run: "process_call_webhook E (PDict w) db =
      Inr (db\<lparr>call_logs :=
                update_first (\<lambda>l. log_vapi_call_id l = cid)
                  (\<lambda>l. l\<lparr>log_call_status := ?new\<rparr>) (call_logs db)\<rparr>,
           (INFO, ascii ''Updated call status''))"
    using webhook_status_update[OF assms(1,2)] status_update_try_found[OF assms(3-7)]
    by (simp add: handle_status_update_def)
  have "find (\<lambda>l. log_vapi_call_id l = cid)
          (update_first (\<lambda>l. log_vapi_call_id l = cid)
                  (\<lambda>l. l\<lparr>log_call_status := ?new\<rparr>) (call_logs db))
        = Some (call_log\<lparr>log_call_status := ?new\<rparr>)"
    using assms(7) by (simp add: find_update_first_same)
  with tab run mapped_status_str[of status] show ?thesis by simp
qed

lemma sample_find_log:
  "find (\<lambda>l. log_vapi_call_id l = ascii ''call-1'') (call_logs sample_db)
     = Some (new_call_log 1 1 (ascii ''call-1''))"
  by (simp add: sample_db_def new_call_log_def)

theorem status_update_maps_status_witness:
  "find (\<lambda>l. log_vapi_call_id l = ascii ''call-1'') (call_logs sample_db)
     = Some (new_call_log 1 1 (ascii ''call-1'')) \<and>
   mapped_status (PStr (ascii ''ended'')) = Inr COMPLETED \<and>
   (\<exists>db'. process_call_webhook (sample_env None PNone) (status_update (ascii ''call-1'') (ascii ''ended'')) sample_db
            = Inr (db', (INFO, ascii ''Updated call status'')) \<and>
          find (\<lambda>l. log_vapi_call_id l = ascii ''call-1'') (call_logs db')
            = Some ((new_call_log 1 1 (ascii ''call-1''))\<lparr>log_call_status := COMPLETED\<rparr>))"
proof -
  have h: "map_of [(ascii ''message'',
             PDict [(ascii ''type'', PStr (ascii ''status-update'')),
                    (ascii ''call'', PDict [(ascii ''id'', PStr (ascii ''call-1''))]),
                    (ascii ''status'', PStr (ascii ''ended''))])] (ascii ''message'')
            = Some (PDict [(ascii ''type'', PStr (ascii ''status-update'')),
                    (ascii ''call'', PDict [(ascii ''id'', PStr (ascii ''call-1''))]),
                    (ascii ''status'', PStr (ascii ''ended''))])"
    "map_of [(ascii ''type'', PStr (ascii ''status-update'')),
                    (ascii ''call'', PDict [(ascii ''id'', PStr (ascii ''call-1''))]),
                    (ascii ''status'', PStr (ascii ''ended''))] (ascii ''type'')
       = Some (PStr (ascii ''status-update''))"
    "map_of [(ascii ''type'', PStr (ascii ''status-update'')),
                    (ascii ''call'', PDict [(ascii ''id'', PStr (ascii ''call-1''))]),
                    (ascii ''status'', PStr (ascii ''ended''))] (ascii ''call'')
       = Some (PDict [(ascii ''id'', PStr (ascii ''call-1''))])"
    "map_of [(ascii ''id'', PStr (ascii ''call-1''))] (ascii ''id'') = Some (PStr (ascii ''call-1''))"
    "ascii ''call-1'' \<noteq> []"
    "map_of [(ascii ''type'', PStr (ascii ''status-update'')),
                    (ascii ''call'', PDict [(ascii ''id'', PStr (ascii ''call-1''))]),
                    (ascii ''status'', PStr (ascii ''ended''))] (ascii ''status'')
       = Some (PStr (ascii ''ended''))"
    by (simp_all add: ascii_def)
  have e: "(if ascii ''ended'' \<in> set [ascii ''queued'', ascii ''ringing'', ascii ''in-progress'',
                                  ascii ''forwarding'']
                then IN_PROGRESS
                else if ascii ''ended'' = ascii ''ended'' then COMPLETED
                else IN_PROGRESS) = COMPLETED"
    by (simp add: ascii_def)
  from status_update_maps_status [OF h sample_find_log, of "sample_env None PNone"]
  show ?thesis
    unfolding e status_update_def using sample_find_log by auto
qed

lemma ebind_eq_Inr: "ebind x f = Inr y \<longleftrightarrow> (\<exists>a. x = Inr a \<and> f a = Inr y)"
  by (cases x) auto

lemma store_end_of_call_cases:
  assumes "store_end_of_call E db cid duration transcript rs url cost po = Inr (db', line)"
  shows "(find (\<lambda>l. log_vapi_call_id l = cid) (call_logs db) = None \<and> db' = db \<and>
          line = (WARNING, ascii ''Call log not found for call ID'')) \<or>
         (\<exists>call_log invoice client.
            find (\<lambda>l. log_vapi_call_id l = cid) (call_logs db) = Some call_log \<and>
            find (\<lambda>i. inv_pk i = log_invoice_id call_log) (invoices db) = Some invoice \<and>
            find (\<lambda>c. cl_pk c = inv_client_id invoice) (clients db) = Some client \<and>
            env_accepts E (update_call_log duration transcript rs url cost po call_log) \<and>
            db' = db\<lparr>call_logs :=
                      update_first (\<lambda>l. log_vapi_call_id l = cid)
                        (update_call_log duration transcript rs url cost po) (call_logs db),
                    invoices :=
                      (if classified_paid po
                       then update_first (\<lambda>i. inv_pk i = log_invoice_id call_log)
                              (\<lambda>i. i\<lparr>inv_payment_status := PAID\<rparr>) (invoices db)
                       else invoices db)\<rparr> \<and>
            line = (INFO, ascii ''Successfully processed end-of-call report for call''))"
  using assms unfolding store_end_of_call_def
  by (auto split: option.splits if_splits)

lemma end_of_call_try_unfold:
  assumes "dict_get m (ascii ''call'') (PDict []) = PDict c"
    and "py_truthy (dict_get c (ascii ''id'') PNone)"
  shows "handle_end_of_call_try E (PDict m) db =
     ebind (call_duration E (dict_get c (ascii ''startedAt'') (PInt 0))
                            (dict_get c (ascii ''endedAt'') (PInt 0)))
       (\<lambda>duration. ebind (classified E m)
       (\<lambda>parsed. ebind (generate_summary E parsed)
       (\<lambda>rs. ebind (bound_call_id E (dict_get c (ascii ''id'') PNone))
       (\<lambda>cid. case parsed of
                 PDict po \<Rightarrow>
                   store_end_of_call E db cid duration
                     (transcript_or_placeholder (dict_get m (ascii ''transcript'') (PStr [])))
                     rs (dict_get c (ascii ''recordingUrl'') PNone)
                     (dict_get c (ascii ''cost'') (PInt 0)) po
               | _ \<Rightarrow> Inl AttributeError))))"
  using assms by (simp add: handle_end_of_call_try_def classified_def Let_def)

lemma classified_dict: "classified E m = Inr v \<Longrightarrow> \<exists>po. v = PDict po"
  unfolding classified_def
  by (metis parse_call_outcome_total sum.inject(2))

lemma end_of_call_try_cases:
  assumes "handle_end_of_call_try E message db = Inr (db', line)"
  shows "(db' = db \<and> fst line \<noteq> INFO) \<or>
     (\<exists>m c cid duration po rs call_log invoice client.
        message = PDict m \<and> dict_get m (ascii ''call'') (PDict []) = PDict c \<and>
        py_truthy (dict_get c (ascii ''id'') PNone) \<and>
        bound_call_id E (dict_get c (ascii ''id'') PNone) = Inr cid \<and>
        call_duration E (dict_get c (ascii ''startedAt'') (PInt 0))
                        (dict_get c (ascii ''endedAt'') (PInt 0)) = Inr duration \<and>
        classified E m = Inr (PDict po) \<and>
        generate_summary E (PDict po) = Inr rs \<and>
        find (\<lambda>l. log_vapi_call_id l = cid) (call_logs db) = Some call_log \<and>
        find (\<lambda>i. inv_pk i = log_invoice_id call_log) (invoices db) = Some invoice \<and>
        find (\<lambda>c. cl_pk c = inv_client_id invoice) (clients db) = Some client \<and>
        db' = db\<lparr>call_logs :=
                  update_first (\<lambda>l. log_vapi_call_id l = cid)
                    (update_call_log duration
                       (transcript_or_placeholder (dict_get m (ascii ''transcript'') (PStr [])))
                       rs (dict_get c (ascii ''recordingUrl'') PNone)
                       (dict_get c (ascii ''cost'') (PInt 0)) po) (call_logs db),
                invoices :=
                  (if classified_paid po
                   then update_first (\<lambda>i. inv_pk i = log_invoice_id call_log)
                          (\<lambda>i. i\<lparr>inv_payment_status := PAID\<rparr>) (invoices db)
                   else invoices db)\<rparr> \<and>
        line = (INFO, ascii ''Successfully processed end-of-call report for call''))"
proof -
  from assms obtain m where m: "message = PDict m"
    by (cases message) (auto simp: handle_end_of_call_try_def)
  from assms m obtain c where c: "dict_get m (ascii ''call'') (PDict []) = PDict c"
    by (cases "dict_get m (ascii ''call'') (PDict [])")
       (auto simp: handle_end_of_call_try_def)
  show ?thesis
  proof (cases "py_truthy (dict_get c (ascii ''id'') PNone)")
    case False
    with assms m c show ?thesis by (auto simp: handle_end_of_call_try_def)
  next
    case True
    from assms[unfolded m end_of_call_try_unfold[OF c True]]
    obtain duration parsed rs cid where
      d: "call_duration E (dict_get c (ascii ''startedAt'') (PInt 0))
                        (dict_get c (ascii ''endedAt'') (PInt 0)) = Inr duration"
      and p: "classified E m = Inr parsed"
      and g: "generate_summary E parsed = Inr rs"
      and b: "bound_call_id E (dict_get c (ascii ''id'') PNone) = Inr cid"
      and s: "(case parsed of
                 PDict po \<Rightarrow>
                   store_end_of_call E db cid duration
                     (transcript_or_placeholder (dict_get m (ascii ''transcript'') (PStr [])))
                     rs (dict_get c (ascii ''recordingUrl'') PNone)
                     (dict_get c (ascii ''cost'') (PInt 0)) po
               | _ \<Rightarrow> Inl AttributeError) = Inr (db', line)"
      by (auto simp: ebind_eq_Inr)
    from classified_dict[OF p] obtain po where po: "parsed = PDict po" by blast
    from s po have "store_end_of_call E db cid duration
                     (transcript_or_placeholder (dict_get m (ascii ''transcript'') (PStr [])))
                     rs (dict_get c (ascii ''recordingUrl'') PNone)
                     (dict_get c (ascii ''cost'') (PInt 0)) po = Inr (db', line)" by simp
    from store_end_of_call_cases[OF this] m c True d p g b po show ?thesis
      by (elim disjE) auto
  qed
qed

lemma handle_end_of_call_cases:
  assumes "handle_end_of_call E message db = Inr (db', line)"
  shows "(db' = db \<and> fst line \<noteq> INFO) \<or>
         handle_end_of_call_try E message db = Inr (db', line)"
  using assms unfolding handle_end_of_call_def
  by (cases "handle_end_of_call_try E message db") auto

text \<open>
  C3. An end-of-call-report whose call id is the id of no stored call log (whatever text
  the driver compares, if the report carries an id at all) leaves the store as it was, with
  no client, invoice or call log added or changed, and \<open>process_call_webhook\<close> returns
  without an exception, its last log line a warning or an error.
\<close>

theorem unknown_call_id_no_write:
  assumes "map_of w (ascii ''message'') = Some (PDict m)"
    and "map_of m (ascii ''type'') = Some (PStr (ascii ''end-of-call-report''))"
    and nomatch: "\<And>c cid. dict_get m (ascii ''call'') (PDict []) = PDict c \<Longrightarrow>
           bound_call_id E (dict_get c (ascii ''id'') PNone) = Inr cid \<Longrightarrow>
           cid \<notin> log_vapi_call_id ` set (call_logs db)"
  shows "\<exists>line. process_call_webhook E (PDict w) db = Inr (db, line) \<and> fst line \<noteq> INFO"
proof -
  obtain db' line where r: "handle_end_of_call E (PDict m) db = Inr (db', line)"
    using handle_end_of_call_total by blast
  have "db' = db \<and> fst line \<noteq> INFO"
  proof (rule ccontr)
    assume n: "\<not> (db' = db \<and> fst line \<noteq> INFO)"
    with handle_end_of_call_cases[OF r]
    have t: "handle_end_of_call_try E (PDict m) db = Inr (db', line)" by blast
    from end_of_call_try_cases[OF t] n obtain c cid call_log where
      "dict_get m (ascii ''call'') (PDict []) = PDict c"
      "bound_call_id E (dict_get c (ascii ''id'') PNone) = Inr cid"
      "find (\<lambda>l. log_vapi_call_id l = cid) (call_logs db) = Some call_log"
      by auto
    with nomatch[of c cid] show False
      by (auto simp: find_Some_iff)
  qed
  with r webhook_end_of_call[OF assms(1,2), of E db] show ?thesis by simp
qed

lemma sample_report_message:
  "map_of [(ascii ''message'', PDict (report_message cid started_at ended_at))] (ascii ''message'')
     = Some (PDict (report_message cid started_at ended_at))"
  "map_of (report_message cid started_at ended_at) (ascii ''type'')
     = Some (PStr (ascii ''end-of-call-report''))"
  "map_of (report_message cid started_at ended_at) (ascii ''call'')
     = Some (PDict (report_call cid started_at ended_at))"
  "map_of (report_call cid started_at ended_at) (ascii ''id'') = Some (PStr cid)"
  "map_of (report_call cid started_at ended_at) (ascii ''startedAt'') = Some started_at"
  "map_of (report_call cid started_at ended_at) (ascii ''endedAt'') = Some ended_at"
  by (simp_all add: report_message_def report_call_def ascii_def)

lemma sample_report_gets:
  "dict_get (report_message cid started_at ended_at) (ascii ''call'') d
     = PDict (report_call cid started_at ended_at)"
  "dict_get (report_call cid started_at ended_at) (ascii ''id'') d = PStr cid"
  "dict_get (report_call cid started_at ended_at) (ascii ''startedAt'') d = started_at"
  "dict_get (report_call cid started_at ended_at) (ascii ''endedAt'') d = ended_at"
  "dict_get (report_call cid started_at ended_at) (ascii ''recordingUrl'') d = d"
  "dict_get (report_call cid started_at ended_at) (ascii ''cost'') d = d"
  "dict_get (report_message cid started_at ended_at) (ascii ''transcript'') d
     = PStr (ascii ''I have paid.'')"
  "dict_get (report_message cid started_at ended_at) (ascii ''summary'') d = d"
  by (simp_all add: dict_get_def report_message_def report_call_def ascii_def)

theorem unknown_call_id_no_write_witness:
  "ascii ''call-9'' \<notin> log_vapi_call_id ` set (call_logs sample_db) \<and>
   (\<exists>line. process_call_webhook (sample_env None PNone)
             (end_of_call_report (ascii ''call-9'') (PInt 1000) (PInt 61000)) sample_db
           = Inr (sample_db, line) \<and> fst line \<noteq> INFO)"
proof -
  let ?m = "report_message (ascii ''call-9'') (PInt 1000) (PInt 61000)"
  let ?w = "[(ascii ''message'', PDict ?m)]"
  have a: "ascii ''call-9'' \<notin> log_vapi_call_id ` set (call_logs sample_db)"
    by (simp add: sample_db_def new_call_log_def ascii_def)
  have "\<exists>line. process_call_webhook (sample_env None PNone) (PDict ?w) sample_db
           = Inr (sample_db, line) \<and> fst line \<noteq> INFO"
  proof (rule unknown_call_id_no_write [of ?w ?m])
    show "map_of ?w (ascii ''message'') = Some (PDict ?m)"
      by (rule sample_report_message(1))
    show "map_of ?m (ascii ''type'') = Some (PStr (ascii ''end-of-call-report''))"
      by (rule sample_report_message(2))
    fix c cid
    assume "dict_get ?m (ascii ''call'') (PDict []) = PDict c"
    then have c: "c = report_call (ascii ''call-9'') (PInt 1000) (PInt 61000)"
      by (simp add: sample_report_gets)
    assume "bound_call_id (sample_env None PNone) (dict_get c (ascii ''id'') PNone) = Inr cid"
    then have "cid = ascii ''call-9''"
      unfolding c by (simp add: sample_report_gets bound_call_id_def)
    with a show "cid \<notin> log_vapi_call_id ` set (call_logs sample_db)" by simp
  qed
  with a show ?thesis unfolding end_of_call_report_def by blast
qed

lemma update_call_log_id [simp]:
  "log_vapi_call_id (update_call_log d t rs url cost po l) = log_vapi_call_id l"
  "log_call_duration (update_call_log d t rs url cost po l) = d"
  "log_call_status (update_call_log d t rs url cost po l) = COMPLETED"
  by (simp_all add: update_call_log_def)



lemma call_duration_falsy:
  "\<not> py_truthy a \<or> \<not> py_truthy b \<Longrightarrow> call_duration E a b = Inr (PInt 0)"
  by (auto simp: call_duration_def)



































subsection \<open>The webhook route\<close>

lemma vapi_webhook_received:
  "fst (vapi_webhook E body db) = Received \<longleftrightarrow>
     (\<exists>w m. body = Inr (PDict w) \<and> dict_get w (ascii ''message'') (PDict []) = PDict m)"
proof (cases body)
  case (Inl e)
  then show ?thesis by (simp add: vapi_webhook_def)
next
  case (Inr payload)
  show ?thesis
  proof (cases "\<exists>w m. payload = PDict w \<and> dict_get w (ascii ''message'') (PDict []) = PDict m")
    case True
    then obtain w m where p: "payload = PDict w"
      and m: "dict_get w (ascii ''message'') (PDict []) = PDict m" by blast
    obtain db' line where "process_call_webhook E (PDict w) db = Inr (db', line)"
      using process_call_webhook_total by blast
    with Inr p m show ?thesis by (simp add: vapi_webhook_def)
  next
    case False
    have "ebind (py_get payload (ascii ''message'') (PDict []))
             (\<lambda>message. ebind (py_get message (ascii ''type'') (PStr (ascii ''unknown'')))
             (\<lambda>logged. process_call_webhook E payload db)) = Inl AttributeError"
    proof (cases payload)
      case (PDict w)
      with False have "\<And>m. dict_get w (ascii ''message'') (PDict []) \<noteq> PDict m" by simp
      then have "py_get (dict_get w (ascii ''message'') (PDict [])) (ascii ''type'')
                   (PStr (ascii ''unknown'')) = Inl AttributeError"
        by (cases "dict_get w (ascii ''message'') (PDict [])") auto
      with PDict show ?thesis by simp
    qed simp_all
    with Inr False show ?thesis by (simp add: vapi_webhook_def)
  qed
qed

text \<open>
  C9, as the code has it. \<open>process_call_webhook\<close> and its two handlers return on every
  payload: an exception of the \<open>try\<close> block is caught, logged with its text, and the
  store is left as it was. The route answers with status 500 exactly when the body is no
  JSON, the payload is no object, or its \<open>message\<close> is no object: the last two come from
  the route's own log line, which calls \<open>get\<close> on the payload and on its message before
  the orchestrator runs. Processing the event never leads to a 500.
\<close>

theorem webhook_never_raises:
  "(\<exists>db' line. process_call_webhook E payload db = Inr (db', line)) \<and>
   (\<exists>db' line. handle_status_update E message db = Inr (db', line)) \<and>
   (\<exists>db' line. handle_end_of_call E message db = Inr (db', line)) \<and>
   (process_call_webhook_try E payload db = Inl e \<longrightarrow>
      process_call_webhook E payload db
        = Inr (db, (ERROR, ascii ''Error processing call webhook: '' @ env_describe E e))) \<and>
   (handle_status_update_try E message db = Inl e \<longrightarrow>
      handle_status_update E message db
        = Inr (db, (ERROR, ascii ''Error handling status update: '' @ env_describe E e))) \<and>
   (handle_end_of_call_try E message db = Inl e \<longrightarrow>
      handle_end_of_call E message db
        = Inr (db, (ERROR, ascii ''Error handling end-of-call report: '' @ env_describe E e))) \<and>
   (fst (vapi_webhook E body db) = Received \<longleftrightarrow>
      (\<exists>w m. body = Inr (PDict w) \<and> dict_get w (ascii ''message'') (PDict []) = PDict m))"
proof (intro conjI)
  show "\<exists>db' line. process_call_webhook E payload db = Inr (db', line)"
    by (rule process_call_webhook_total)
  show "\<exists>db' line. handle_status_update E message db = Inr (db', line)"
    by (rule handle_status_update_total)
  show "\<exists>db' line. handle_end_of_call E message db = Inr (db', line)"
    by (rule handle_end_of_call_total)
  show "process_call_webhook_try E payload db = Inl e \<longrightarrow>
      process_call_webhook E payload db
        = Inr (db, (ERROR, ascii ''Error processing call webhook: '' @ env_describe E e))"
    by (simp add: process_call_webhook_def)
  show "handle_status_update_try E message db = Inl e \<longrightarrow>
      handle_status_update E message db
        = Inr (db, (ERROR, ascii ''Error handling status update: '' @ env_describe E e))"
    by (simp add: handle_status_update_def)
  show "handle_end_of_call_try E message db = Inl e \<longrightarrow>
      handle_end_of_call E message db
        = Inr (db, (ERROR, ascii ''Error handling end-of-call report: '' @ env_describe E e))"
    by (simp add: handle_end_of_call_def)
  show "fst (vapi_webhook E body db) = Received \<longleftrightarrow>
      (\<exists>w m. body = Inr (PDict w) \<and> dict_get w (ascii ''message'') (PDict []) = PDict m)"
    by (rule vapi_webhook_received)
qed

theorem webhook_never_raises_witness:
  "process_call_webhook_try (sample_env None PNone) (PStr (ascii ''ping'')) sample_db
     = Inl AttributeError \<and>
   process_call_webhook (sample_env None PNone) (PStr (ascii ''ping'')) sample_db
     = Inr (sample_db, (ERROR, ascii ''Error processing call webhook: '' @ ascii ''error'')) \<and>
   handle_status_update_try (sample_env None PNone) (PStr (ascii ''ping'')) sample_db
     = Inl AttributeError \<and>
   handle_status_update (sample_env None PNone) (PStr (ascii ''ping'')) sample_db
     = Inr (sample_db, (ERROR, ascii ''Error handling status update: '' @ ascii ''error'')) \<and>
   handle_end_of_call_try (sample_env None PNone) (PStr (ascii ''ping'')) sample_db
     = Inl AttributeError \<and>
   handle_end_of_call (sample_env None PNone) (PStr (ascii ''ping'')) sample_db
     = Inr (sample_db, (ERROR, ascii ''Error handling end-of-call report: '' @ ascii ''error''))"
proof -
  have a: "process_call_webhook_try (sample_env None PNone) (PStr (ascii ''ping'')) sample_db
     = Inl AttributeError"
    by (simp add: process_call_webhook_try_def)
  have b: "handle_status_update_try (sample_env None PNone) (PStr (ascii ''ping'')) sample_db
     = Inl AttributeError"
    by (simp add: handle_status_update_try_def)
  have c: "handle_end_of_call_try (sample_env None PNone) (PStr (ascii ''ping'')) sample_db
     = Inl AttributeError"
    by (simp add: handle_end_of_call_try_def)
  have d: "env_describe (sample_env None PNone) AttributeError = ascii ''error''"
    by (simp add: sample_env_def)
  note inst = webhook_never_raises [where E = "sample_env None PNone"
      and payload = "PStr (ascii ''ping'')" and message = "PStr (ascii ''ping'')"
      and db = sample_db and e = AttributeError, unfolded d]
  from inst a b c show ?thesis by blast
qed

text \<open>
  A body that is JSON, an object even, whose message is a string: the route's log line
  raises \<open>AttributeError\<close> and the response is a 500.
\<close>

theorem webhook_route_500_counterexample:
  "vapi_webhook (sample_env None PNone)
     (Inr (PDict [(ascii ''message'', PStr (ascii ''ping''))])) sample_db
   = (Http500 (ascii ''error''), sample_db)"
  by (simp add: vapi_webhook_def dict_get_def sample_env_def)

end
